theory Spec2Isabelle
  imports Complex_Main "HOL-Library.Word"
begin

section \<open>Package option: values given literally or by reference\<close>

text \<open>
  A shallow embedding of \<^verbatim>\<open>types/option/option.go\<close>. Go strings are byte sequences
  and so are HOL strings. A Go pointer that is only tested against nil and dereferenced
  is an \<open>option\<close>: \<open>None\<close> is nil. A Go map that is only read is a partial function.
  The fields of the Go structs keep their names behind a prefix that tells the structs
  apart (\<open>cm_Name\<close> is \<^verbatim>\<open>ValueFromConfigMap.Name\<close>), since HOL record fields are
  global names.
\<close>

subsection \<open>Values of the Go runtime\<close>

text \<open>The enumeration \<^verbatim>\<open>reflect.Kind\<close>, in the order of the Go declaration.\<close>

datatype Kind =
    KInvalid | KBool
  | KInt | KInt8 | KInt16 | KInt32 | KInt64
  | KUint | KUint8 | KUint16 | KUint32 | KUint64 | KUintptr
  | KFloat32 | KFloat64 | KComplex64 | KComplex128
  | KArray | KChan | KFunc | KInterface | KMap | KPointer | KSlice | KString | KStruct
  | KUnsafePointer

text \<open>
  A \<^verbatim>\<open>float64\<close> is a finite value, an infinity or a NaN. A finite value is kept as the
  rational number it denotes (every finite \<^verbatim>\<open>float64\<close> is a dyadic rational; the
  code does no floating-point arithmetic, it only converts to \<^verbatim>\<open>int\<close>).
\<close>

datatype float64 = Finite rat | PosInf | NegInf | NaN

text \<open>
  What \<^verbatim>\<open>Container.Data()\<close> holds after \<^verbatim>\<open>gabs.ParseJSON\<close>: the dynamic value of an
  \<^verbatim>\<open>interface{}\<close> that \<^verbatim>\<open>encoding/json\<close> filled in, which is nil, a \<^verbatim>\<open>bool\<close>, a
  \<^verbatim>\<open>float64\<close>, a \<^verbatim>\<open>string\<close>, a \<^verbatim>\<open>[]interface{}\<close> or a
  \<^verbatim>\<open>map[string]interface{}\<close>.
\<close>

datatype jdata =
    JNil
  | JBool bool
  | JFloat64 float64
  | JString string
  | JSlice "jdata list"
  | JMap "(string \<times> jdata) list"

text \<open>
  \<^verbatim>\<open>reflect.TypeOf(data)\<close> is the nil \<^verbatim>\<open>Type\<close> for a nil interface value, here \<open>None\<close>;
  otherwise \<^verbatim>\<open>.Kind()\<close> of the type is the kind below.
\<close>

fun TypeOf_Kind :: "jdata \<Rightarrow> Kind option" where
  "TypeOf_Kind JNil = None"
| "TypeOf_Kind (JBool b) = Some KBool"
| "TypeOf_Kind (JFloat64 f) = Some KFloat64"
| "TypeOf_Kind (JString s) = Some KString"
| "TypeOf_Kind (JSlice xs) = Some KSlice"
| "TypeOf_Kind (JMap kvs) = Some KMap"

subsection \<open>Errors, panics and results\<close>

text \<open>The two kinds of failure of \<^verbatim>\<open>strconv.Atoi\<close> (\<^verbatim>\<open>ErrSyntax\<close>, \<^verbatim>\<open>ErrRange\<close>).\<close>

datatype NumErr = ErrSyntax | ErrRange

text \<open>
  One constructor for each error value the package builds, carrying the arguments of its
  format string in their order. \<open>NumError s e\<close> is the \<^verbatim>\<open>*strconv.NumError\<close> of
  \<^verbatim>\<open>Atoi\<close> on the input \<open>s\<close>.
\<close>

datatype error =
    errValidationNoValueOrRef
  | errValidationBothValueAndRef
  | ConfigMapNameEmpty
  | ConfigMapKeyEmpty
  | ExpectedSingleReference nat
  | NoNonNilReference
  | ConfigMapNotExist string
  | KeyNotExist string string
  | NoEntryForKind string
  | NoEntryForResource string
  | NoEntryForPath string
  | ErrorParsingJSON string
  | WrongType jdata Kind Kind
  | NumError string NumErr

text \<open>
  A Go panic is not an error value: it unwinds the caller. \<open>PanicValue s\<close> is
  \<^verbatim>\<open>panic(s)\<close>; \<open>NilDereference\<close> is the runtime's nil pointer dereference (also a method
  call on a nil interface value); \<open>TypeAssertionFailed\<close> is the runtime's panic on
  \<^verbatim>\<open>x.(T)\<close> when the dynamic type of \<open>x\<close> is not \<open>T\<close>.
\<close>

datatype panic = PanicValue string | NilDereference | TypeAssertionFailed

text \<open>
  A call that returns \<^verbatim>\<open>(*T, error)\<close> returns both components, each of which may be
  nil, or panics.
\<close>

datatype 'a outcome = Returned "'a option" "error option" | Panicked panic

subsection \<open>References\<close>

record ValueFromConfigMap =
  cm_Name :: string
  cm_Key :: string

record ValueFromSecret =
  sec_Name :: string
  sec_Key :: string

record ValueFromKrakenResource =
  kr_Kind :: string
  kr_Name :: string
  kr_Path :: string

record ValueFrom =
  ConfigMap :: "ValueFromConfigMap option"
  Secret :: "ValueFromSecret option"
  KrakenResource :: "ValueFromKrakenResource option"

definition ValueFromConfigMap_Validate :: "ValueFromConfigMap \<Rightarrow> error option" where
  "ValueFromConfigMap_Validate vfcm =
     (if cm_Name vfcm = [] then Some ConfigMapNameEmpty
      else if cm_Key vfcm = [] then Some ConfigMapKeyEmpty
      else None)"

definition nonNilCount :: "ValueFrom \<Rightarrow> nat" where
  "nonNilCount vf =
     (if ConfigMap vf \<noteq> None then 1 else 0)
   + (if Secret vf \<noteq> None then 1 else 0)
   + (if KrakenResource vf \<noteq> None then 1 else 0)"

definition ValueFrom_Validate :: "ValueFrom \<Rightarrow> error option" where
  "ValueFrom_Validate vf =
     (if nonNilCount vf \<noteq> 1 then Some (ExpectedSingleReference (nonNilCount vf))
      else None)"

subsection \<open>The options\<close>

text \<open>
  \<^verbatim>\<open>option.String\<close> and \<^verbatim>\<open>option.Int\<close>. Go's \<^verbatim>\<open>int\<close> is taken at 64 bits: a value
  of \<open>int\<close> between \<open>- 2 ^ 63\<close> and \<open>2 ^ 63 - 1\<close>.
\<close>

record String_t =
  str_Value :: "string option"
  str_ValueFrom :: "ValueFrom option"

record Int_t =
  int_Value :: "int option"
  int_ValueFrom :: "ValueFrom option"

definition String_Validate :: "String_t \<Rightarrow> error option" where
  "String_Validate s =
     (if str_Value s \<noteq> None then
        (if str_ValueFrom s \<noteq> None then Some errValidationBothValueAndRef else None)
      else
        (case str_ValueFrom s of
           None \<Rightarrow> Some errValidationNoValueOrRef
         | Some vf \<Rightarrow> ValueFrom_Validate vf))"

definition Int_Validate :: "Int_t \<Rightarrow> error option" where
  "Int_Validate i =
     (if int_Value i \<noteq> None then
        (if int_ValueFrom i \<noteq> None then Some errValidationBothValueAndRef else None)
      else
        (case int_ValueFrom i of
           None \<Rightarrow> Some errValidationNoValueOrRef
         | Some vf \<Rightarrow> ValueFrom_Validate vf))"

subsection \<open>Dependency declarations\<close>

text \<open>
  Modelled from the spec: the declarations of \<^verbatim>\<open>krakenv1alpha1.ConfigMapDependency\<close>,
  \<^verbatim>\<open>KrakenResourceDependency\<close> and \<^verbatim>\<open>DependencyRequestSpec\<close> are not in the source
  tree. The records have the fields the package writes; whatever else a
  \<^verbatim>\<open>DependencyRequestSpec\<close> holds is the record's extension \<open>'z\<close>.
\<close>

record ConfigMapDependency =
  cmd_Name :: string
  cmd_Key :: string

record KrakenResourceDependency =
  krd_Kind :: string
  krd_Name :: string
  krd_Path :: string
  krd_ReflectKind :: Kind

record DependencyRequestSpec =
  ConfigMapDependencies :: "ConfigMapDependency list"
  KrakenResourceDependencies :: "KrakenResourceDependency list"

definition ToConfigMapDependency :: "ValueFromConfigMap \<Rightarrow> ConfigMapDependency" where
  "ToConfigMapDependency vfcm = \<lparr>cmd_Name = cm_Name vfcm, cmd_Key = cm_Key vfcm\<rparr>"

text \<open>\<^verbatim>\<open>ToSecretDependency\<close> returns nothing and always panics; its result is the panic.\<close>

definition ToSecretDependency :: "ValueFromSecret \<Rightarrow> panic" where
  "ToSecretDependency vfs = PanicValue ''Not implemented''"

definition ToKrakenResourceDependency ::
  "ValueFromKrakenResource \<Rightarrow> Kind \<Rightarrow> KrakenResourceDependency" where
  "ToKrakenResourceDependency vfkr kind =
     \<lparr>krd_Kind = kr_Kind vfkr, krd_Name = kr_Name vfkr, krd_Path = kr_Path vfkr,
      krd_ReflectKind = kind\<rparr>"

text \<open>
  \<^verbatim>\<open>AddToDependencyRequestSpec\<close> writes through the pointer \<open>dr\<close>: the model returns the
  structure as the call leaves it, and the panic if the call ended in one. The three tests
  run in the source's order, so the appends have happened when the panic is raised.
\<close>

definition AddToDependencyRequestSpec ::
  "ValueFrom \<Rightarrow> 'z DependencyRequestSpec_scheme \<Rightarrow> Kind
     \<Rightarrow> 'z DependencyRequestSpec_scheme \<times> panic option" where
  "AddToDependencyRequestSpec vf dr kind =
     (let dr1 = (case KrakenResource vf of
                   Some kr \<Rightarrow> dr\<lparr>KrakenResourceDependencies :=
                       KrakenResourceDependencies dr @ [ToKrakenResourceDependency kr kind]\<rparr>
                 | None \<Rightarrow> dr);
          dr2 = (case ConfigMap vf of
                   Some cm \<Rightarrow> dr1\<lparr>ConfigMapDependencies :=
                       ConfigMapDependencies dr1 @ [ToConfigMapDependency cm]\<rparr>
                 | None \<Rightarrow> dr1)
      in (dr2, if Secret vf \<noteq> None then Some (PanicValue ''Unimplemented'') else None))"

subsection \<open>The dependent values\<close>

text \<open>
  Modelled from the spec: the declaration of \<^verbatim>\<open>krakenv1alpha1.DependentValues\<close> is not
  in the source tree. \<^verbatim>\<open>FromConfigMaps\<close> maps a ConfigMap name to a map from key to
  string; \<^verbatim>\<open>FromKrakenResources\<close> maps a kind to a map from resource name to a map from
  path to a JSON value, whose \<^verbatim>\<open>Raw\<close> field is the serialized bytes.
\<close>

record JSON =
  Raw :: string

type_synonym DependentValuesFromConfigMaps = "string \<rightharpoonup> (string \<rightharpoonup> string)"

type_synonym DependentValuesFromKrakenResources =
  "string \<rightharpoonup> (string \<rightharpoonup> (string \<rightharpoonup> JSON))"

record DependentValues =
  FromConfigMaps :: DependentValuesFromConfigMaps
  FromKrakenResources :: DependentValuesFromKrakenResources

subsection \<open>Lookup\<close>

definition getValueFromConfigMap ::
  "ValueFromConfigMap \<Rightarrow> DependentValuesFromConfigMaps \<Rightarrow> string outcome" where
  "getValueFromConfigMap cmRef cmVals =
     (case cmVals (cm_Name cmRef) of
        None \<Rightarrow> Returned None (Some (ConfigMapNotExist (cm_Name cmRef)))
      | Some cm \<Rightarrow>
          (case cm (cm_Key cmRef) of
             None \<Rightarrow> Returned None (Some (KeyNotExist (cm_Key cmRef) (cm_Name cmRef)))
           | Some val \<Rightarrow> Returned (Some val) None))"

text \<open>
  The type parameter \<open>T\<close> of \<^verbatim>\<open>getValueFromKrakenResource[T]\<close> is used in two ways:
  \<^verbatim>\<open>reflect.TypeOf(val).Kind()\<close> of its zero value, and the type assertion
  \<^verbatim>\<open>data.(T)\<close>. A type is given by these two. The package instantiates \<open>T\<close> with
  \<^verbatim>\<open>string\<close> and \<^verbatim>\<open>float64\<close>.
\<close>

record 'a gotype =
  zeroKind :: Kind
  assertT :: "jdata \<Rightarrow> 'a option"

definition T_string :: "string gotype" where
  "T_string = \<lparr>zeroKind = KString,
                assertT = (\<lambda>d. case d of JString s \<Rightarrow> Some s | _ \<Rightarrow> None)\<rparr>"

definition T_float64 :: "float64 gotype" where
  "T_float64 = \<lparr>zeroKind = KFloat64,
                 assertT = (\<lambda>d. case d of JFloat64 f \<Rightarrow> Some f | _ \<Rightarrow> None)\<rparr>"

text \<open>
  \<^verbatim>\<open>gabs.ParseJSON\<close> followed by \<^verbatim>\<open>Data()\<close> belongs to another module and is the
  parameter \<open>parseJSON\<close>: the parser's error message, or the parsed value.
\<close>

definition getValueFromKrakenResource ::
  "(string \<Rightarrow> string + jdata) \<Rightarrow> 'a gotype \<Rightarrow> ValueFromKrakenResource
     \<Rightarrow> DependentValuesFromKrakenResources \<Rightarrow> 'a outcome" where
  "getValueFromKrakenResource parseJSON T krRef krVals =
     (case krVals (kr_Kind krRef) of
        None \<Rightarrow> Returned None (Some (NoEntryForKind (kr_Kind krRef)))
      | Some kind \<Rightarrow>
     (case kind (kr_Name krRef) of
        None \<Rightarrow> Returned None (Some (NoEntryForResource (kr_Name krRef)))
      | Some resource \<Rightarrow>
     (case resource (kr_Path krRef) of
        None \<Rightarrow> Returned None (Some (NoEntryForPath (kr_Path krRef)))
      | Some jsonVal \<Rightarrow>
     (case parseJSON (Raw jsonVal) of
        Inl err \<Rightarrow> Returned None (Some (ErrorParsingJSON err))
      | Inr data \<Rightarrow>
          (let expectedType = zeroKind T in
           case TypeOf_Kind data of
             None \<Rightarrow> Panicked NilDereference
           | Some actualType \<Rightarrow>
               if actualType \<noteq> expectedType
               then Returned None (Some (WrongType data actualType expectedType))
               else (case assertT T data of
                       None \<Rightarrow> Panicked TypeAssertionFailed
                     | Some val \<Rightarrow> Returned (Some val) None))))))"

subsection \<open>Conversions of the Go language and library\<close>

text \<open>
  \<^verbatim>\<open>strconv.Atoi\<close> belongs to Go's standard library. The model follows its documented
  algorithm for a 64-bit \<^verbatim>\<open>int\<close>: an optional sign, then \<^verbatim>\<open>ParseUint\<close> in base 10 over
  what is left, which must not be empty. \<open>parseUintLoop\<close> is the loop of \<^verbatim>\<open>ParseUint\<close>:
  a byte that is not a decimal digit ends it with \<^verbatim>\<open>ErrSyntax\<close>, an accumulator that
  leaves the range of \<^verbatim>\<open>uint64\<close> ends it with \<^verbatim>\<open>ErrRange\<close>. The digits may have leading
  zeros; white space and underscores are not digits.
\<close>

definition isDigit :: "char \<Rightarrow> bool" where
  "isDigit c = (of_char (CHR ''0'') \<le> (of_char c :: nat) \<and> (of_char c :: nat) \<le> of_char (CHR ''9''))"

definition digitVal :: "char \<Rightarrow> nat" where
  "digitVal c = of_char c - of_char (CHR ''0'')"

definition maxUint64 :: nat where
  "maxUint64 = 2 ^ 64 - 1"

fun parseUintLoop :: "nat \<Rightarrow> string \<Rightarrow> NumErr + nat" where
  "parseUintLoop n [] = Inr n"
| "parseUintLoop n (c # cs) =
     (if \<not> isDigit c then Inl ErrSyntax
      else if n \<ge> maxUint64 div 10 + 1 then Inl ErrRange
      else if n * 10 + digitVal c > maxUint64 then Inl ErrRange
      else parseUintLoop (n * 10 + digitVal c) cs)"

definition Atoi :: "string \<Rightarrow> NumErr + int" where
  "Atoi s =
     (if s = [] then Inl ErrSyntax
      else
        (let neg = (hd s = CHR ''-'');
             ds = (if hd s = CHR ''+'' \<or> hd s = CHR ''-'' then tl s else s)
         in if ds = [] then Inl ErrSyntax
            else (case parseUintLoop 0 ds of
                    Inl e \<Rightarrow> Inl e
                  | Inr un \<Rightarrow>
                      if \<not> neg \<and> un \<ge> 2 ^ 63 then Inl ErrRange
                      else if neg \<and> un > 2 ^ 63 then Inl ErrRange
                      else Inr (if neg then - int un else int un))))"

text \<open>
  The conversion \<^verbatim>\<open>int(f)\<close> of a \<^verbatim>\<open>float64\<close>. The Go specification: the fraction is
  discarded (truncation towards zero), and if the result type cannot represent the value
  the conversion succeeds with an implementation-dependent result. The implementation's
  choice is the parameter \<open>outOfRange\<close>, a 64-bit value.
\<close>

definition truncation :: "rat \<Rightarrow> int" where
  "truncation q = (if 0 \<le> q then \<lfloor>q\<rfloor> else \<lceil>q\<rceil>)"

definition int_of_float64 :: "(float64 \<Rightarrow> 64 word) \<Rightarrow> float64 \<Rightarrow> int" where
  "int_of_float64 outOfRange f =
     (case f of
        Finite q \<Rightarrow>
          if - (2 ^ 63) \<le> truncation q \<and> truncation q < 2 ^ 63 then truncation q
          else sint (outOfRange f)
      | _ \<Rightarrow> sint (outOfRange f))"

subsection \<open>Resolution\<close>

definition String_ToApplicableValue ::
  "(string \<Rightarrow> string + jdata) \<Rightarrow> String_t \<Rightarrow> DependentValues \<Rightarrow> string outcome" where
  "String_ToApplicableValue parseJSON s dv =
     (if str_Value s \<noteq> None then Returned (str_Value s) None
      else case str_ValueFrom s of
        None \<Rightarrow> Returned None None
      | Some vf \<Rightarrow>
          (case ConfigMap vf of
             Some cm \<Rightarrow> getValueFromConfigMap cm (FromConfigMaps dv)
           | None \<Rightarrow>
          (case KrakenResource vf of
             Some kr \<Rightarrow> getValueFromKrakenResource parseJSON T_string kr (FromKrakenResources dv)
           | None \<Rightarrow> Returned None (Some NoNonNilReference))))"

text \<open>
  In \<^verbatim>\<open>Int.ToApplicableValue\<close> the result of a lookup is tested for an error and then
  dereferenced; the dereference of a nil result with a nil error would panic.
\<close>

definition Int_ToApplicableValue ::
  "(string \<Rightarrow> string + jdata) \<Rightarrow> (float64 \<Rightarrow> 64 word) \<Rightarrow> Int_t \<Rightarrow> DependentValues
     \<Rightarrow> int outcome" where
  "Int_ToApplicableValue parseJSON outOfRange i dv =
     (if int_Value i \<noteq> None then Returned (int_Value i) None
      else case int_ValueFrom i of
        None \<Rightarrow> Returned None None
      | Some vf \<Rightarrow>
          (case ConfigMap vf of
             Some cm \<Rightarrow>
               (case getValueFromConfigMap cm (FromConfigMaps dv) of
                  Panicked p \<Rightarrow> Panicked p
                | Returned valString (Some err) \<Rightarrow> Returned None (Some err)
                | Returned None None \<Rightarrow> Panicked NilDereference
                | Returned (Some str) None \<Rightarrow>
                    (case Atoi str of
                       Inl e \<Rightarrow> Returned None (Some (NumError str e))
                     | Inr val \<Rightarrow> Returned (Some val) None))
           | None \<Rightarrow>
          (case KrakenResource vf of
             Some kr \<Rightarrow>
               (case getValueFromKrakenResource parseJSON T_float64 kr (FromKrakenResources dv) of
                  Panicked p \<Rightarrow> Panicked p
                | Returned valFloat (Some err) \<Rightarrow> Returned None (Some err)
                | Returned None None \<Rightarrow> Panicked NilDereference
                | Returned (Some f) None \<Rightarrow> Returned (Some (int_of_float64 outOfRange f)) None)
           | None \<Rightarrow> Returned None (Some NoNonNilReference))))"

subsection \<open>The validity of an option, in the words of the specification\<close>

text \<open>
  These predicates are not code. \<open>exactlyOneVariant\<close> says that exactly one of the three
  pointers of a \<^verbatim>\<open>ValueFrom\<close> is not nil. \<open>spec_subfields_nonempty\<close> and
  \<open>spec_String_valid\<close> follow the specification's sentence on validation: a reference is
  well formed when the populated variant has all its required sub-fields non-empty, and an
  option is valid when exactly one of literal and reference is set and, for a reference,
  the reference is well formed.
\<close>

definition exactlyOneVariant :: "ValueFrom \<Rightarrow> bool" where
  "exactlyOneVariant vf =
     ((ConfigMap vf \<noteq> None \<and> Secret vf = None \<and> KrakenResource vf = None)
    \<or> (ConfigMap vf = None \<and> Secret vf \<noteq> None \<and> KrakenResource vf = None)
    \<or> (ConfigMap vf = None \<and> Secret vf = None \<and> KrakenResource vf \<noteq> None))"

definition spec_subfields_nonempty :: "ValueFrom \<Rightarrow> bool" where
  "spec_subfields_nonempty vf =
     ((case ConfigMap vf of None \<Rightarrow> True | Some cm \<Rightarrow> cm_Name cm \<noteq> [] \<and> cm_Key cm \<noteq> [])
    \<and> (case Secret vf of None \<Rightarrow> True | Some sec \<Rightarrow> sec_Name sec \<noteq> [] \<and> sec_Key sec \<noteq> [])
    \<and> (case KrakenResource vf of None \<Rightarrow> True
         | Some kr \<Rightarrow> kr_Kind kr \<noteq> [] \<and> kr_Name kr \<noteq> [] \<and> kr_Path kr \<noteq> []))"

definition spec_String_valid :: "String_t \<Rightarrow> bool" where
  "spec_String_valid s =
     (case (str_Value s, str_ValueFrom s) of
        (Some v, None) \<Rightarrow> True
      | (None, Some vf) \<Rightarrow> exactlyOneVariant vf \<and> spec_subfields_nonempty vf
      | _ \<Rightarrow> False)"

subsection \<open>Decimal numerals, in the words of the specification\<close>

text \<open>
  These are not code. \<open>decimalValue\<close> is the number a string of decimal digits denotes, and
  \<open>spec_parse_base10\<close> is what it means for a string to be parseable as a base-10 integer:
  an optional sign, then at least one decimal digit and nothing else, with a value that
  fits the 64-bit \<^verbatim>\<open>int\<close>.
\<close>

definition decimalValue :: "string \<Rightarrow> nat" where
  "decimalValue ds = foldl (\<lambda>n c. n * 10 + digitVal c) 0 ds"

definition spec_parse_base10 :: "string \<Rightarrow> int option" where
  "spec_parse_base10 s =
     (let neg = (s \<noteq> [] \<and> hd s = CHR ''-'');
          ds = (if s \<noteq> [] \<and> (hd s = CHR ''+'' \<or> hd s = CHR ''-'') then tl s else s);
          v = (if neg then - int (decimalValue ds) else int (decimalValue ds))
      in if ds \<noteq> [] \<and> list_all isDigit ds \<and> - (2 ^ 63) \<le> v \<and> v < 2 ^ 63 then Some v
         else None)"

subsection \<open>The same methods on a memory of cells\<close>

text \<open>
  The functional model above cannot express a write: a pointer is the value it points to.
  To state what a call leaves unchanged, the lookup and resolution functions are embedded
  a second time, from the same source lines, on an explicit memory. A pointer is an
  address, a method takes the memory and returns it with its result, and the only step
  that changes memory is the allocation of a result cell.
\<close>

type_synonym addr = nat

text \<open>The structs with their pointer fields as they are: an address, or nil.\<close>

record ValueFrom_mem =
  ConfigMap_p :: "addr option"
  Secret_p :: "addr option"
  KrakenResource_p :: "addr option"

record String_mem =
  str_Value_p :: "addr option"
  str_ValueFrom_p :: "addr option"

record Int_mem =
  int_Value_p :: "addr option"
  int_ValueFrom_p :: "addr option"

text \<open>
  The memory: for each type the code points to, the cell at each address; the maps of the
  bag (Go maps are references, so a callee could write them); and the first address not
  yet allocated.
\<close>

record memory =
  string_cells :: "addr \<Rightarrow> string"
  int_cells :: "addr \<Rightarrow> int"
  float64_cells :: "addr \<Rightarrow> float64"
  ValueFrom_cells :: "addr \<Rightarrow> ValueFrom_mem"
  ValueFromConfigMap_cells :: "addr \<Rightarrow> ValueFromConfigMap"
  ValueFromSecret_cells :: "addr \<Rightarrow> ValueFromSecret"
  ValueFromKrakenResource_cells :: "addr \<Rightarrow> ValueFromKrakenResource"
  bag :: DependentValues
  next_free :: addr

text \<open>
  \<^verbatim>\<open>&val\<close> of a local variable that outlives the call: the value moves to a fresh cell.
\<close>

definition new_string :: "string \<Rightarrow> memory \<Rightarrow> addr \<times> memory" where
  "new_string v m =
     (next_free m,
      m\<lparr>string_cells := (string_cells m)(next_free m := v), next_free := Suc (next_free m)\<rparr>)"

definition new_int :: "int \<Rightarrow> memory \<Rightarrow> addr \<times> memory" where
  "new_int v m =
     (next_free m,
      m\<lparr>int_cells := (int_cells m)(next_free m := v), next_free := Suc (next_free m)\<rparr>)"

definition new_float64 :: "float64 \<Rightarrow> memory \<Rightarrow> addr \<times> memory" where
  "new_float64 v m =
     (next_free m,
      m\<lparr>float64_cells := (float64_cells m)(next_free m := v), next_free := Suc (next_free m)\<rparr>)"

definition getValueFromConfigMap_mem :: "addr \<Rightarrow> memory \<Rightarrow> addr outcome \<times> memory" where
  "getValueFromConfigMap_mem cmRef m =
     (case FromConfigMaps (bag m) (cm_Name (ValueFromConfigMap_cells m cmRef)) of
        None \<Rightarrow>
          (Returned None (Some (ConfigMapNotExist (cm_Name (ValueFromConfigMap_cells m cmRef)))), m)
      | Some cm \<Rightarrow>
          (case cm (cm_Key (ValueFromConfigMap_cells m cmRef)) of
             None \<Rightarrow>
               (Returned None (Some (KeyNotExist (cm_Key (ValueFromConfigMap_cells m cmRef))
                                       (cm_Name (ValueFromConfigMap_cells m cmRef)))), m)
           | Some val \<Rightarrow>
               (case new_string val m of (a, m') \<Rightarrow> (Returned (Some a) None, m'))))"

text \<open>
  A type parameter gives, besides its kind and its type assertion, the heap its values
  are allocated in.
\<close>

record 'a gotype_mem = "'a gotype" +
  newT :: "'a \<Rightarrow> memory \<Rightarrow> addr \<times> memory"

definition T_string_mem :: "string gotype_mem" where
  "T_string_mem =
     \<lparr>zeroKind = zeroKind T_string, assertT = assertT T_string, newT = new_string\<rparr>"

definition T_float64_mem :: "float64 gotype_mem" where
  "T_float64_mem =
     \<lparr>zeroKind = zeroKind T_float64, assertT = assertT T_float64, newT = new_float64\<rparr>"

definition getValueFromKrakenResource_mem ::
  "(string \<Rightarrow> string + jdata) \<Rightarrow> 'a gotype_mem \<Rightarrow> addr \<Rightarrow> memory \<Rightarrow> addr outcome \<times> memory" where
  "getValueFromKrakenResource_mem parseJSON T krRef m =
     (case FromKrakenResources (bag m) (kr_Kind (ValueFromKrakenResource_cells m krRef)) of
        None \<Rightarrow>
          (Returned None (Some (NoEntryForKind (kr_Kind (ValueFromKrakenResource_cells m krRef)))), m)
      | Some kind \<Rightarrow>
     (case kind (kr_Name (ValueFromKrakenResource_cells m krRef)) of
        None \<Rightarrow>
          (Returned None
             (Some (NoEntryForResource (kr_Name (ValueFromKrakenResource_cells m krRef)))), m)
      | Some resource \<Rightarrow>
     (case resource (kr_Path (ValueFromKrakenResource_cells m krRef)) of
        None \<Rightarrow>
          (Returned None (Some (NoEntryForPath (kr_Path (ValueFromKrakenResource_cells m krRef)))), m)
      | Some jsonVal \<Rightarrow>
     (case parseJSON (Raw jsonVal) of
        Inl err \<Rightarrow> (Returned None (Some (ErrorParsingJSON err)), m)
      | Inr data \<Rightarrow>
          (let expectedType = zeroKind T in
           case TypeOf_Kind data of
             None \<Rightarrow> (Panicked NilDereference, m)
           | Some actualType \<Rightarrow>
               if actualType \<noteq> expectedType
               then (Returned None (Some (WrongType data actualType expectedType)), m)
               else (case assertT T data of
                       None \<Rightarrow> (Panicked TypeAssertionFailed, m)
                     | Some val \<Rightarrow>
                         (case newT T val m of (a, m') \<Rightarrow> (Returned (Some a) None, m'))))))))"

definition String_ToApplicableValue_mem ::
  "(string \<Rightarrow> string + jdata) \<Rightarrow> String_mem \<Rightarrow> memory \<Rightarrow> addr outcome \<times> memory" where
  "String_ToApplicableValue_mem parseJSON s m =
     (if str_Value_p s \<noteq> None then (Returned (str_Value_p s) None, m)
      else case str_ValueFrom_p s of
        None \<Rightarrow> (Returned None None, m)
      | Some vf \<Rightarrow>
          (case ConfigMap_p (ValueFrom_cells m vf) of
             Some cm \<Rightarrow> getValueFromConfigMap_mem cm m
           | None \<Rightarrow>
          (case KrakenResource_p (ValueFrom_cells m vf) of
             Some kr \<Rightarrow> getValueFromKrakenResource_mem parseJSON T_string_mem kr m
           | None \<Rightarrow> (Returned None (Some NoNonNilReference), m))))"

definition Int_ToApplicableValue_mem ::
  "(string \<Rightarrow> string + jdata) \<Rightarrow> (float64 \<Rightarrow> 64 word) \<Rightarrow> Int_mem \<Rightarrow> memory
     \<Rightarrow> addr outcome \<times> memory" where
  "Int_ToApplicableValue_mem parseJSON outOfRange i m =
     (if int_Value_p i \<noteq> None then (Returned (int_Value_p i) None, m)
      else case int_ValueFrom_p i of
        None \<Rightarrow> (Returned None None, m)
      | Some vf \<Rightarrow>
          (case ConfigMap_p (ValueFrom_cells m vf) of
             Some cm \<Rightarrow>
               (case getValueFromConfigMap_mem cm m of
                  (Panicked p, m1) \<Rightarrow> (Panicked p, m1)
                | (Returned valString (Some err), m1) \<Rightarrow> (Returned None (Some err), m1)
                | (Returned None None, m1) \<Rightarrow> (Panicked NilDereference, m1)
                | (Returned (Some valString) None, m1) \<Rightarrow>
                    (case Atoi (string_cells m1 valString) of
                       Inl e \<Rightarrow> (Returned None (Some (NumError (string_cells m1 valString) e)), m1)
                     | Inr val \<Rightarrow>
                         (case new_int val m1 of (a, m2) \<Rightarrow> (Returned (Some a) None, m2))))
           | None \<Rightarrow>
          (case KrakenResource_p (ValueFrom_cells m vf) of
             Some kr \<Rightarrow>
               (case getValueFromKrakenResource_mem parseJSON T_float64_mem kr m of
                  (Panicked p, m1) \<Rightarrow> (Panicked p, m1)
                | (Returned valFloat (Some err), m1) \<Rightarrow> (Returned None (Some err), m1)
                | (Returned None None, m1) \<Rightarrow> (Panicked NilDereference, m1)
                | (Returned (Some valFloat) None, m1) \<Rightarrow>
                    (case new_int (int_of_float64 outOfRange (float64_cells m1 valFloat)) m1 of
                       (a, m2) \<Rightarrow> (Returned (Some a) None, m2)))
           | None \<Rightarrow> (Returned None (Some NoNonNilReference), m))))"

text \<open>
  What memory holds, read back as values of the functional model: the option behind its
  pointers, and the result behind the returned pointer. \<open>unchanged_below m m'\<close> says that
  \<open>m'\<close> differs from \<open>m\<close> at most in cells that were not allocated in \<open>m\<close>.
\<close>

definition abs_ValueFrom :: "memory \<Rightarrow> ValueFrom_mem \<Rightarrow> ValueFrom" where
  "abs_ValueFrom m vf =
     \<lparr>ConfigMap = map_option (ValueFromConfigMap_cells m) (ConfigMap_p vf),
      Secret = map_option (ValueFromSecret_cells m) (Secret_p vf),
      KrakenResource = map_option (ValueFromKrakenResource_cells m) (KrakenResource_p vf)\<rparr>"

definition abs_String :: "memory \<Rightarrow> String_mem \<Rightarrow> String_t" where
  "abs_String m s =
     \<lparr>str_Value = map_option (string_cells m) (str_Value_p s),
      str_ValueFrom = map_option (\<lambda>a. abs_ValueFrom m (ValueFrom_cells m a)) (str_ValueFrom_p s)\<rparr>"

definition abs_Int :: "memory \<Rightarrow> Int_mem \<Rightarrow> Int_t" where
  "abs_Int m i =
     \<lparr>int_Value = map_option (int_cells m) (int_Value_p i),
      int_ValueFrom = map_option (\<lambda>a. abs_ValueFrom m (ValueFrom_cells m a)) (int_ValueFrom_p i)\<rparr>"

definition deref :: "(addr \<Rightarrow> 'a) \<Rightarrow> addr outcome \<Rightarrow> 'a outcome" where
  "deref cells r =
     (case r of Returned p e \<Rightarrow> Returned (map_option cells p) e | Panicked x \<Rightarrow> Panicked x)"

definition unchanged_below :: "memory \<Rightarrow> memory \<Rightarrow> bool" where
  "unchanged_below m m' =
     (next_free m \<le> next_free m'
      \<and> bag m' = bag m
      \<and> ValueFrom_cells m' = ValueFrom_cells m
      \<and> ValueFromConfigMap_cells m' = ValueFromConfigMap_cells m
      \<and> ValueFromSecret_cells m' = ValueFromSecret_cells m
      \<and> ValueFromKrakenResource_cells m' = ValueFromKrakenResource_cells m
      \<and> (\<forall>a. a < next_free m \<longrightarrow>
            string_cells m' a = string_cells m a \<and> int_cells m' a = int_cells m a
            \<and> float64_cells m' a = float64_cells m a))"

section \<open>Properties\<close>

subsection \<open>Validation\<close>

lemma nonNilCount_one: "nonNilCount vf = 1 \<longleftrightarrow> exactlyOneVariant vf"
  by (simp add: nonNilCount_def exactlyOneVariant_def)

lemma ValueFrom_Validate_ok: "ValueFrom_Validate vf = None \<longleftrightarrow> exactlyOneVariant vf"
  using nonNilCount_one [of vf] by (auto simp: ValueFrom_Validate_def)

text \<open>
  Claim C1 as stated asks that a reference-only option validates only if the required
  sub-fields of the populated variant are non-empty. \<^verbatim>\<open>String.Validate\<close> and
  \<^verbatim>\<open>Int.Validate\<close> delegate to \<^verbatim>\<open>ValueFrom.Validate\<close>, which counts the non-nil pointers
  and looks at no sub-field: it never calls \<^verbatim>\<open>ValueFromConfigMap.Validate\<close>, and the other
  two variants have no validation method at all. An option whose only reference is a
  ConfigMap, a Secret or a KrakenResource with empty fields validates.
\<close>

theorem Validate_empty_subfields_counterexample:
  "String_Validate \<lparr>str_Value = None, str_ValueFrom = Some \<lparr>ConfigMap = None, Secret = None,
       KrakenResource = Some \<lparr>kr_Kind = [], kr_Name = [], kr_Path = []\<rparr>\<rparr>\<rparr> = None
   \<and> \<not> spec_String_valid \<lparr>str_Value = None, str_ValueFrom = Some \<lparr>ConfigMap = None,
       Secret = None, KrakenResource = Some \<lparr>kr_Kind = [], kr_Name = [], kr_Path = []\<rparr>\<rparr>\<rparr>
   \<and> String_Validate \<lparr>str_Value = None, str_ValueFrom = Some \<lparr>ConfigMap = None,
       Secret = Some \<lparr>sec_Name = [], sec_Key = []\<rparr>, KrakenResource = None\<rparr>\<rparr> = None
   \<and> \<not> spec_String_valid \<lparr>str_Value = None, str_ValueFrom = Some \<lparr>ConfigMap = None,
       Secret = Some \<lparr>sec_Name = [], sec_Key = []\<rparr>, KrakenResource = None\<rparr>\<rparr>
   \<and> String_Validate \<lparr>str_Value = None, str_ValueFrom = Some \<lparr>ConfigMap = Some \<lparr>cm_Name = [],
       cm_Key = []\<rparr>, Secret = None, KrakenResource = None\<rparr>\<rparr> = None
   \<and> \<not> spec_String_valid \<lparr>str_Value = None, str_ValueFrom = Some \<lparr>ConfigMap = Some \<lparr>cm_Name = [],
       cm_Key = []\<rparr>, Secret = None, KrakenResource = None\<rparr>\<rparr>"
  by (simp add: String_Validate_def ValueFrom_Validate_def nonNilCount_def spec_String_valid_def
      spec_subfields_nonempty_def)

text \<open>
  Claim C1, amended. With both the literal and the reference set \<^verbatim>\<open>Validate\<close> fails with
  the both-value-and-reference error, with neither set with the no-value-or-reference
  error. For an option whose ConfigMap reference, if it has one, passes
  \<^verbatim>\<open>ValueFromConfigMap.Validate\<close> (its name and key are non-empty), \<^verbatim>\<open>Validate\<close> succeeds if
  and only if either only the literal is set, or only the reference is set and exactly one
  of its variants is non-nil; the sub-fields of a Secret or KrakenResource variant are not
  examined. Nothing is said here about an option whose ConfigMap reference has an empty
  name or key.
\<close>

theorem Validate_exactly_one:
  "((\<forall>vf cm. str_ValueFrom s = Some vf \<and> ConfigMap vf = Some cm
        \<longrightarrow> ValueFromConfigMap_Validate cm = None) \<longrightarrow>
      (String_Validate s = None \<longleftrightarrow>
          (str_Value s \<noteq> None \<and> str_ValueFrom s = None)
        \<or> (str_Value s = None \<and> (\<exists>vf. str_ValueFrom s = Some vf \<and> exactlyOneVariant vf))))
   \<and> (str_Value s \<noteq> None \<and> str_ValueFrom s \<noteq> None
        \<longrightarrow> String_Validate s = Some errValidationBothValueAndRef)
   \<and> (str_Value s = None \<and> str_ValueFrom s = None
        \<longrightarrow> String_Validate s = Some errValidationNoValueOrRef)
   \<and> ((\<forall>vf cm. int_ValueFrom i = Some vf \<and> ConfigMap vf = Some cm
        \<longrightarrow> ValueFromConfigMap_Validate cm = None) \<longrightarrow>
      (Int_Validate i = None \<longleftrightarrow>
          (int_Value i \<noteq> None \<and> int_ValueFrom i = None)
        \<or> (int_Value i = None \<and> (\<exists>vf. int_ValueFrom i = Some vf \<and> exactlyOneVariant vf))))
   \<and> (int_Value i \<noteq> None \<and> int_ValueFrom i \<noteq> None
        \<longrightarrow> Int_Validate i = Some errValidationBothValueAndRef)
   \<and> (int_Value i = None \<and> int_ValueFrom i = None
        \<longrightarrow> Int_Validate i = Some errValidationNoValueOrRef)"
proof -
  have S: "String_Validate s = None \<longleftrightarrow>
      (str_Value s \<noteq> None \<and> str_ValueFrom s = None)
    \<or> (str_Value s = None \<and> (\<exists>vf. str_ValueFrom s = Some vf \<and> exactlyOneVariant vf))"
    by (cases "str_ValueFrom s") (auto simp: String_Validate_def ValueFrom_Validate_ok)
  have I: "Int_Validate i = None \<longleftrightarrow>
      (int_Value i \<noteq> None \<and> int_ValueFrom i = None)
    \<or> (int_Value i = None \<and> (\<exists>vf. int_ValueFrom i = Some vf \<and> exactlyOneVariant vf))"
    by (cases "int_ValueFrom i") (auto simp: Int_Validate_def ValueFrom_Validate_ok)
  have B: "str_Value s \<noteq> None \<and> str_ValueFrom s \<noteq> None
        \<longrightarrow> String_Validate s = Some errValidationBothValueAndRef"
    "str_Value s = None \<and> str_ValueFrom s = None
        \<longrightarrow> String_Validate s = Some errValidationNoValueOrRef"
    "int_Value i \<noteq> None \<and> int_ValueFrom i \<noteq> None
        \<longrightarrow> Int_Validate i = Some errValidationBothValueAndRef"
    "int_Value i = None \<and> int_ValueFrom i = None
        \<longrightarrow> Int_Validate i = Some errValidationNoValueOrRef"
    by (simp_all add: String_Validate_def Int_Validate_def)
  from S I B show ?thesis by blast
qed

theorem Validate_exactly_one_witness:
  "String_Validate \<lparr>str_Value = None, str_ValueFrom = Some \<lparr>ConfigMap = Some \<lparr>cm_Name = ''cfg'',
       cm_Key = ''port''\<rparr>, Secret = None, KrakenResource = None\<rparr>\<rparr> = None
   \<and> Int_Validate \<lparr>int_Value = None, int_ValueFrom = Some \<lparr>ConfigMap = None, Secret = None,
       KrakenResource = Some \<lparr>kr_Kind = [], kr_Name = [], kr_Path = []\<rparr>\<rparr>\<rparr> = None
   \<and> String_Validate \<lparr>str_Value = Some ''a'', str_ValueFrom = Some \<lparr>ConfigMap = None, Secret = None,
       KrakenResource = None\<rparr>\<rparr> = Some errValidationBothValueAndRef
   \<and> String_Validate \<lparr>str_Value = None, str_ValueFrom = None\<rparr> = Some errValidationNoValueOrRef
   \<and> Int_Validate \<lparr>int_Value = Some 7, int_ValueFrom = Some \<lparr>ConfigMap = None, Secret = None,
       KrakenResource = None\<rparr>\<rparr> = Some errValidationBothValueAndRef
   \<and> Int_Validate \<lparr>int_Value = None, int_ValueFrom = None\<rparr> = Some errValidationNoValueOrRef"
  using
    Validate_exactly_one [of "\<lparr>str_Value = None, str_ValueFrom = Some \<lparr>ConfigMap = Some
       \<lparr>cm_Name = ''cfg'', cm_Key = ''port''\<rparr>, Secret = None, KrakenResource = None\<rparr>\<rparr>"
      "\<lparr>int_Value = None, int_ValueFrom = Some \<lparr>ConfigMap = None, Secret = None,
       KrakenResource = Some \<lparr>kr_Kind = [], kr_Name = [], kr_Path = []\<rparr>\<rparr>\<rparr>"]
    Validate_exactly_one [of "\<lparr>str_Value = Some ''a'', str_ValueFrom = Some \<lparr>ConfigMap = None,
       Secret = None, KrakenResource = None\<rparr>\<rparr>"
      "\<lparr>int_Value = Some 7, int_ValueFrom = Some \<lparr>ConfigMap = None, Secret = None,
       KrakenResource = None\<rparr>\<rparr>"]
    Validate_exactly_one [of "\<lparr>str_Value = None, str_ValueFrom = None\<rparr>"
      "\<lparr>int_Value = None, int_ValueFrom = None\<rparr>"]
  by (simp add: ValueFromConfigMap_Validate_def exactlyOneVariant_def)

subsection \<open>Resolution of literals and of empty options\<close>

text \<open>
  Claim C3: an option whose literal is present resolves to that literal with no error,
  for every bag and every parser, whether or not a reference is present too. The result
  does not depend on the bag: nothing of it is read.
\<close>

theorem literal_returned_unchanged:
  "(str_Value s = Some v
      \<longrightarrow> String_ToApplicableValue parseJSON s dv = Returned (Some v) None)
   \<and> (int_Value i = Some n
      \<longrightarrow> Int_ToApplicableValue parseJSON outOfRange i dv = Returned (Some n) None)"
  by (simp add: String_ToApplicableValue_def Int_ToApplicableValue_def)

theorem literal_returned_unchanged_witness:
  "String_ToApplicableValue (\<lambda>r. Inl ''no parser'')
      \<lparr>str_Value = Some ''lit'', str_ValueFrom = Some \<lparr>ConfigMap = Some \<lparr>cm_Name = ''cfg'',
         cm_Key = ''port''\<rparr>, Secret = None, KrakenResource = None\<rparr>\<rparr>
      \<lparr>FromConfigMaps = Map.empty, FromKrakenResources = Map.empty\<rparr>
    = Returned (Some ''lit'') None
   \<and> Int_ToApplicableValue (\<lambda>r. Inl ''no parser'') (\<lambda>f. 0)
      \<lparr>int_Value = Some 5, int_ValueFrom = Some \<lparr>ConfigMap = Some \<lparr>cm_Name = ''cfg'',
         cm_Key = ''port''\<rparr>, Secret = None, KrakenResource = None\<rparr>\<rparr>
      \<lparr>FromConfigMaps = Map.empty, FromKrakenResources = Map.empty\<rparr>
    = Returned (Some 5) None"
  using literal_returned_unchanged [of
      "\<lparr>str_Value = Some ''lit'', str_ValueFrom = Some \<lparr>ConfigMap = Some \<lparr>cm_Name = ''cfg'',
         cm_Key = ''port''\<rparr>, Secret = None, KrakenResource = None\<rparr>\<rparr>" "''lit''"
      "\<lambda>r. Inl ''no parser''"
      "\<lparr>FromConfigMaps = Map.empty, FromKrakenResources = Map.empty\<rparr>"
      "\<lparr>int_Value = Some 5, int_ValueFrom = Some \<lparr>ConfigMap = Some \<lparr>cm_Name = ''cfg'',
         cm_Key = ''port''\<rparr>, Secret = None, KrakenResource = None\<rparr>\<rparr>" 5 "\<lambda>f. 0"]
  by simp

text \<open>
  Claim C7: an option with neither a literal nor a reference resolves to a nil result and
  a nil error, for every bag.
\<close>

theorem neither_present_returns_nil:
  "(str_Value s = None \<and> str_ValueFrom s = None
      \<longrightarrow> String_ToApplicableValue parseJSON s dv = Returned None None)
   \<and> (int_Value i = None \<and> int_ValueFrom i = None
      \<longrightarrow> Int_ToApplicableValue parseJSON outOfRange i dv = Returned None None)"
  by (simp add: String_ToApplicableValue_def Int_ToApplicableValue_def)

theorem neither_present_returns_nil_witness:
  "String_ToApplicableValue (\<lambda>r. Inl ''no parser'') \<lparr>str_Value = None, str_ValueFrom = None\<rparr>
      \<lparr>FromConfigMaps = [''cfg'' \<mapsto> [''port'' \<mapsto> ''8080'']], FromKrakenResources = Map.empty\<rparr>
    = Returned None None
   \<and> Int_ToApplicableValue (\<lambda>r. Inl ''no parser'') (\<lambda>f. 0)
      \<lparr>int_Value = None, int_ValueFrom = None\<rparr>
      \<lparr>FromConfigMaps = [''cfg'' \<mapsto> [''port'' \<mapsto> ''8080'']], FromKrakenResources = Map.empty\<rparr>
    = Returned None None"
  using neither_present_returns_nil [of "\<lparr>str_Value = None, str_ValueFrom = None\<rparr>"
      "\<lambda>r. Inl ''no parser''"
      "\<lparr>FromConfigMaps = [''cfg'' \<mapsto> [''port'' \<mapsto> ''8080'']], FromKrakenResources = Map.empty\<rparr>"
      "\<lparr>int_Value = None, int_ValueFrom = None\<rparr>" "\<lambda>f. 0"]
  by simp

subsection \<open>Lookup in the ConfigMap values\<close>

lemma getValueFromConfigMap_no_name:
  "cmVals (cm_Name r) = None
     \<Longrightarrow> getValueFromConfigMap r cmVals = Returned None (Some (ConfigMapNotExist (cm_Name r)))"
  by (simp add: getValueFromConfigMap_def)

lemma getValueFromConfigMap_no_key:
  "cmVals (cm_Name r) = Some cm \<Longrightarrow> cm (cm_Key r) = None
     \<Longrightarrow> getValueFromConfigMap r cmVals
         = Returned None (Some (KeyNotExist (cm_Key r) (cm_Name r)))"
  by (simp add: getValueFromConfigMap_def)

lemma getValueFromConfigMap_found:
  "cmVals (cm_Name r) = Some cm \<Longrightarrow> cm (cm_Key r) = Some v
     \<Longrightarrow> getValueFromConfigMap r cmVals = Returned (Some v) None"
  by (simp add: getValueFromConfigMap_def)

lemma String_config_path:
  "str_Value s = None \<Longrightarrow> str_ValueFrom s = Some vf \<Longrightarrow> ConfigMap vf = Some r
     \<Longrightarrow> String_ToApplicableValue parseJSON s dv = getValueFromConfigMap r (FromConfigMaps dv)"
  by (simp add: String_ToApplicableValue_def)

lemma Int_config_path_error:
  "int_Value i = None \<Longrightarrow> int_ValueFrom i = Some vf \<Longrightarrow> ConfigMap vf = Some r
     \<Longrightarrow> getValueFromConfigMap r (FromConfigMaps dv) = Returned None (Some e)
     \<Longrightarrow> Int_ToApplicableValue parseJSON outOfRange i dv = Returned None (Some e)"
  by (simp add: Int_ToApplicableValue_def)

lemma Int_config_path_found:
  "int_Value i = None \<Longrightarrow> int_ValueFrom i = Some vf \<Longrightarrow> ConfigMap vf = Some r
     \<Longrightarrow> getValueFromConfigMap r (FromConfigMaps dv) = Returned (Some str) None
     \<Longrightarrow> Int_ToApplicableValue parseJSON outOfRange i dv
         = (case Atoi str of Inl e \<Rightarrow> Returned None (Some (NumError str e))
            | Inr val \<Rightarrow> Returned (Some val) None)"
  by (simp add: Int_ToApplicableValue_def)

text \<open>
  Claim C6: when a ConfigMap reference is resolved (by \<^verbatim>\<open>getValueFromConfigMap\<close> itself, or
  through a \<^verbatim>\<open>String\<close> or \<^verbatim>\<open>Int\<close> option that has no literal), a bag without the named
  ConfigMap gives the error that names the missing ConfigMap, and a bag with the ConfigMap
  but without the key gives the error that names the missing key (and the ConfigMap). The
  two errors are different values.
\<close>

theorem missing_name_and_missing_key:
  assumes "str_Value s = None" and "str_ValueFrom s = Some vf"
    and "int_Value i = None" and "int_ValueFrom i = Some vf"
    and "ConfigMap vf = Some r"
  shows "(FromConfigMaps dv (cm_Name r) = None \<longrightarrow>
            getValueFromConfigMap r (FromConfigMaps dv)
              = Returned None (Some (ConfigMapNotExist (cm_Name r)))
          \<and> String_ToApplicableValue parseJSON s dv
              = Returned None (Some (ConfigMapNotExist (cm_Name r)))
          \<and> Int_ToApplicableValue parseJSON outOfRange i dv
              = Returned None (Some (ConfigMapNotExist (cm_Name r))))
       \<and> (\<forall>cm. FromConfigMaps dv (cm_Name r) = Some cm \<and> cm (cm_Key r) = None \<longrightarrow>
            getValueFromConfigMap r (FromConfigMaps dv)
              = Returned None (Some (KeyNotExist (cm_Key r) (cm_Name r)))
          \<and> String_ToApplicableValue parseJSON s dv
              = Returned None (Some (KeyNotExist (cm_Key r) (cm_Name r)))
          \<and> Int_ToApplicableValue parseJSON outOfRange i dv
              = Returned None (Some (KeyNotExist (cm_Key r) (cm_Name r))))
       \<and> ConfigMapNotExist (cm_Name r) \<noteq> KeyNotExist (cm_Key r) (cm_Name r)"
proof (intro conjI impI allI)
  assume n: "FromConfigMaps dv (cm_Name r) = None"
  show "getValueFromConfigMap r (FromConfigMaps dv)
      = Returned None (Some (ConfigMapNotExist (cm_Name r)))"
    using n by (simp add: getValueFromConfigMap_no_name)
  then show "String_ToApplicableValue parseJSON s dv
      = Returned None (Some (ConfigMapNotExist (cm_Name r)))"
    using assms by (simp add: String_config_path)
  show "Int_ToApplicableValue parseJSON outOfRange i dv
      = Returned None (Some (ConfigMapNotExist (cm_Name r)))"
    using assms(3-5) n by (simp add: Int_config_path_error getValueFromConfigMap_no_name)
next
  fix cm
  assume k: "FromConfigMaps dv (cm_Name r) = Some cm \<and> cm (cm_Key r) = None"
  then have g: "getValueFromConfigMap r (FromConfigMaps dv)
      = Returned None (Some (KeyNotExist (cm_Key r) (cm_Name r)))"
    by (simp add: getValueFromConfigMap_no_key)
  show "getValueFromConfigMap r (FromConfigMaps dv)
      = Returned None (Some (KeyNotExist (cm_Key r) (cm_Name r)))"
    by (rule g)
  show "String_ToApplicableValue parseJSON s dv
      = Returned None (Some (KeyNotExist (cm_Key r) (cm_Name r)))"
    using assms g by (simp add: String_config_path)
  show "Int_ToApplicableValue parseJSON outOfRange i dv
      = Returned None (Some (KeyNotExist (cm_Key r) (cm_Name r)))"
    using assms(3-5) g by (simp add: Int_config_path_error)
next
  show "ConfigMapNotExist (cm_Name r) \<noteq> KeyNotExist (cm_Key r) (cm_Name r)"
    by simp
qed

theorem missing_name_and_missing_key_witness:
  "String_ToApplicableValue (\<lambda>raw. Inl ''no parser'')
      \<lparr>str_Value = None, str_ValueFrom = Some \<lparr>ConfigMap = Some \<lparr>cm_Name = ''cfg'', cm_Key = ''port''\<rparr>,
         Secret = None, KrakenResource = None\<rparr>\<rparr>
      \<lparr>FromConfigMaps = Map.empty, FromKrakenResources = Map.empty\<rparr>
     = Returned None (Some (ConfigMapNotExist ''cfg''))
   \<and> Int_ToApplicableValue (\<lambda>raw. Inl ''no parser'') (\<lambda>f. 0)
      \<lparr>int_Value = None, int_ValueFrom = Some \<lparr>ConfigMap = Some \<lparr>cm_Name = ''cfg'', cm_Key = ''port''\<rparr>,
         Secret = None, KrakenResource = None\<rparr>\<rparr>
      \<lparr>FromConfigMaps = [''cfg'' \<mapsto> [''host'' \<mapsto> ''web'']], FromKrakenResources = Map.empty\<rparr>
     = Returned None (Some (KeyNotExist ''port'' ''cfg''))"
proof -
  let ?vf = "\<lparr>ConfigMap = Some \<lparr>cm_Name = ''cfg'', cm_Key = ''port''\<rparr>,
         Secret = None, KrakenResource = None\<rparr>"
  let ?s = "\<lparr>str_Value = None, str_ValueFrom = Some ?vf\<rparr>"
  let ?i = "\<lparr>int_Value = None, int_ValueFrom = Some ?vf\<rparr>"
  let ?r = "\<lparr>cm_Name = ''cfg'', cm_Key = ''port''\<rparr>"
  have a: "str_Value ?s = None" "str_ValueFrom ?s = Some ?vf"
    "int_Value ?i = None" "int_ValueFrom ?i = Some ?vf" "ConfigMap ?vf = Some ?r"
    by simp_all
  note t = missing_name_and_missing_key [OF a]
  show ?thesis
    using t [of "\<lparr>FromConfigMaps = Map.empty, FromKrakenResources = Map.empty\<rparr>"
          "\<lambda>raw. Inl ''no parser''" "\<lambda>f. 0"]
      t [of "\<lparr>FromConfigMaps = [''cfg'' \<mapsto> [''host'' \<mapsto> ''web'']], FromKrakenResources = Map.empty\<rparr>"
          "\<lambda>raw. Inl ''no parser''" "\<lambda>f. 0"]
    by simp
qed

subsection \<open>Dependency requests\<close>

text \<open>
  Claim C9: \<^verbatim>\<open>AddToDependencyRequestSpec\<close> leaves in the caller's structure, for a populated
  ConfigMap reference, the old ConfigMap dependencies followed by exactly one
  \<^verbatim>\<open>ConfigMapDependency\<close> with the reference's name and key, and for a populated
  KrakenResource reference the old KrakenResource dependencies followed by exactly one
  \<^verbatim>\<open>KrakenResourceDependency\<close> with the reference's kind, name and path and the caller's
  \<^verbatim>\<open>reflect.Kind\<close>. The list of a variant that is nil is unchanged, and so is the rest of
  the structure.
\<close>

theorem AddToDependencyRequestSpec_appends_one:
  "(\<forall>cm. ConfigMap vf = Some cm \<longrightarrow>
        ConfigMapDependencies (fst (AddToDependencyRequestSpec vf dr kind))
          = ConfigMapDependencies dr @ [\<lparr>cmd_Name = cm_Name cm, cmd_Key = cm_Key cm\<rparr>])
   \<and> (ConfigMap vf = None \<longrightarrow>
        ConfigMapDependencies (fst (AddToDependencyRequestSpec vf dr kind))
          = ConfigMapDependencies dr)
   \<and> (\<forall>kr. KrakenResource vf = Some kr \<longrightarrow>
        KrakenResourceDependencies (fst (AddToDependencyRequestSpec vf dr kind))
          = KrakenResourceDependencies dr
            @ [\<lparr>krd_Kind = kr_Kind kr, krd_Name = kr_Name kr, krd_Path = kr_Path kr,
                krd_ReflectKind = kind\<rparr>])
   \<and> (KrakenResource vf = None \<longrightarrow>
        KrakenResourceDependencies (fst (AddToDependencyRequestSpec vf dr kind))
          = KrakenResourceDependencies dr)
   \<and> DependencyRequestSpec.more (fst (AddToDependencyRequestSpec vf dr kind))
        = DependencyRequestSpec.more dr"
  by (cases "ConfigMap vf"; cases "KrakenResource vf")
    (simp_all add: AddToDependencyRequestSpec_def ToConfigMapDependency_def
      ToKrakenResourceDependency_def)

theorem AddToDependencyRequestSpec_appends_one_witness:
  "ConfigMapDependencies (fst (AddToDependencyRequestSpec
       \<lparr>ConfigMap = Some \<lparr>cm_Name = ''cfg'', cm_Key = ''port''\<rparr>, Secret = None,
        KrakenResource = None\<rparr>
       \<lparr>ConfigMapDependencies = [\<lparr>cmd_Name = ''old'', cmd_Key = ''k''\<rparr>],
        KrakenResourceDependencies = []\<rparr> KInt))
     = [\<lparr>cmd_Name = ''old'', cmd_Key = ''k''\<rparr>, \<lparr>cmd_Name = ''cfg'', cmd_Key = ''port''\<rparr>]
   \<and> KrakenResourceDependencies (fst (AddToDependencyRequestSpec
       \<lparr>ConfigMap = Some \<lparr>cm_Name = ''cfg'', cm_Key = ''port''\<rparr>, Secret = None,
        KrakenResource = None\<rparr>
       \<lparr>ConfigMapDependencies = [\<lparr>cmd_Name = ''old'', cmd_Key = ''k''\<rparr>],
        KrakenResourceDependencies = []\<rparr> KInt)) = []
   \<and> KrakenResourceDependencies (fst (AddToDependencyRequestSpec
       \<lparr>ConfigMap = None, Secret = None,
        KrakenResource = Some \<lparr>kr_Kind = ''Deployment'', kr_Name = ''web'', kr_Path = ''replicas''\<rparr>\<rparr>
       \<lparr>ConfigMapDependencies = [\<lparr>cmd_Name = ''old'', cmd_Key = ''k''\<rparr>],
        KrakenResourceDependencies = []\<rparr> KInt))
     = [\<lparr>krd_Kind = ''Deployment'', krd_Name = ''web'', krd_Path = ''replicas'',
         krd_ReflectKind = KInt\<rparr>]
   \<and> ConfigMapDependencies (fst (AddToDependencyRequestSpec
       \<lparr>ConfigMap = None, Secret = None,
        KrakenResource = Some \<lparr>kr_Kind = ''Deployment'', kr_Name = ''web'', kr_Path = ''replicas''\<rparr>\<rparr>
       \<lparr>ConfigMapDependencies = [\<lparr>cmd_Name = ''old'', cmd_Key = ''k''\<rparr>],
        KrakenResourceDependencies = []\<rparr> KInt))
     = [\<lparr>cmd_Name = ''old'', cmd_Key = ''k''\<rparr>]"
  using
    AddToDependencyRequestSpec_appends_one [of
       "\<lparr>ConfigMap = Some \<lparr>cm_Name = ''cfg'', cm_Key = ''port''\<rparr>, Secret = None,
        KrakenResource = None\<rparr>"
       "\<lparr>ConfigMapDependencies = [\<lparr>cmd_Name = ''old'', cmd_Key = ''k''\<rparr>],
        KrakenResourceDependencies = []\<rparr>" KInt]
    AddToDependencyRequestSpec_appends_one [of
       "\<lparr>ConfigMap = None, Secret = None,
        KrakenResource = Some \<lparr>kr_Kind = ''Deployment'', kr_Name = ''web'', kr_Path = ''replicas''\<rparr>\<rparr>"
       "\<lparr>ConfigMapDependencies = [\<lparr>cmd_Name = ''old'', cmd_Key = ''k''\<rparr>],
        KrakenResourceDependencies = []\<rparr>" KInt]
  by simp

subsection \<open>The secret variant\<close>

text \<open>
  Claim C2 asks that both \<^verbatim>\<open>AddToDependencyRequestSpec\<close> and \<^verbatim>\<open>ToApplicableValue\<close> abort
  with a panic when only the secret variant is populated. The first does, with the value
  \<^verbatim>\<open>"Unimplemented"\<close>. The two \<^verbatim>\<open>ToApplicableValue\<close> methods have no branch for the secret:
  they fall through to the last \<^verbatim>\<open>return\<close> and give back an ordinary error, whose message
  says that the \<^verbatim>\<open>ValueFrom\<close> holds no non-nil pointer although its \<^verbatim>\<open>Secret\<close> is not nil.
\<close>

theorem secret_only_materialization_panics_resolution_returns_error:
  assumes "ConfigMap vf = None" and "KrakenResource vf = None" and "Secret vf = Some sec"
    and "str_Value s = None" and "str_ValueFrom s = Some vf"
    and "int_Value i = None" and "int_ValueFrom i = Some vf"
  shows "AddToDependencyRequestSpec vf dr kind = (dr, Some (PanicValue ''Unimplemented''))
       \<and> String_ToApplicableValue parseJSON s dv = Returned None (Some NoNonNilReference)
       \<and> Int_ToApplicableValue parseJSON outOfRange i dv = Returned None (Some NoNonNilReference)"
  using assms
  by (simp add: AddToDependencyRequestSpec_def String_ToApplicableValue_def
      Int_ToApplicableValue_def)

theorem secret_only_witness:
  "AddToDependencyRequestSpec
       \<lparr>ConfigMap = None, Secret = Some \<lparr>sec_Name = ''db'', sec_Key = ''password''\<rparr>,
        KrakenResource = None\<rparr>
       \<lparr>ConfigMapDependencies = [], KrakenResourceDependencies = []\<rparr> KString
     = (\<lparr>ConfigMapDependencies = [], KrakenResourceDependencies = []\<rparr>,
        Some (PanicValue ''Unimplemented''))
   \<and> String_ToApplicableValue (\<lambda>raw. Inl ''no parser'')
       \<lparr>str_Value = None, str_ValueFrom = Some \<lparr>ConfigMap = None,
          Secret = Some \<lparr>sec_Name = ''db'', sec_Key = ''password''\<rparr>, KrakenResource = None\<rparr>\<rparr>
       \<lparr>FromConfigMaps = Map.empty, FromKrakenResources = Map.empty\<rparr>
     = Returned None (Some NoNonNilReference)
   \<and> Int_ToApplicableValue (\<lambda>raw. Inl ''no parser'') (\<lambda>f. 0)
       \<lparr>int_Value = None, int_ValueFrom = Some \<lparr>ConfigMap = None,
          Secret = Some \<lparr>sec_Name = ''db'', sec_Key = ''password''\<rparr>, KrakenResource = None\<rparr>\<rparr>
       \<lparr>FromConfigMaps = Map.empty, FromKrakenResources = Map.empty\<rparr>
     = Returned None (Some NoNonNilReference)"
proof -
  let ?vf = "\<lparr>ConfigMap = None, Secret = Some \<lparr>sec_Name = ''db'', sec_Key = ''password''\<rparr>,
        KrakenResource = None\<rparr>"
  let ?s = "\<lparr>str_Value = None, str_ValueFrom = Some ?vf\<rparr>"
  let ?i = "\<lparr>int_Value = None, int_ValueFrom = Some ?vf\<rparr>"
  have a: "ConfigMap ?vf = None" "KrakenResource ?vf = None"
    "Secret ?vf = Some \<lparr>sec_Name = ''db'', sec_Key = ''password''\<rparr>"
    "str_Value ?s = None" "str_ValueFrom ?s = Some ?vf"
    "int_Value ?i = None" "int_ValueFrom ?i = Some ?vf"
    by simp_all
  show ?thesis
    using secret_only_materialization_panics_resolution_returns_error [OF a,
        of "\<lparr>ConfigMapDependencies = [], KrakenResourceDependencies = []\<rparr>" KString
          "\<lambda>raw. Inl ''no parser''"
          "\<lparr>FromConfigMaps = Map.empty, FromKrakenResources = Map.empty\<rparr>" "\<lambda>f. 0"]
    by simp
qed

subsection \<open>Lookup in the KrakenResource values\<close>

lemma getValueFromKrakenResource_parsed:
  "krVals (kr_Kind r) = Some kind \<Longrightarrow> kind (kr_Name r) = Some resource
     \<Longrightarrow> resource (kr_Path r) = Some jsonVal \<Longrightarrow> parseJSON (Raw jsonVal) = Inr data
     \<Longrightarrow> getValueFromKrakenResource parseJSON T r krVals
         = (case TypeOf_Kind data of
              None \<Rightarrow> Panicked NilDereference
            | Some actualType \<Rightarrow>
                if actualType \<noteq> zeroKind T
                then Returned None (Some (WrongType data actualType (zeroKind T)))
                else (case assertT T data of
                        None \<Rightarrow> Panicked TypeAssertionFailed
                      | Some val \<Rightarrow> Returned (Some val) None))"
  by (simp add: getValueFromKrakenResource_def Let_def)

lemma String_resource_path:
  "str_Value s = None \<Longrightarrow> str_ValueFrom s = Some vf \<Longrightarrow> ConfigMap vf = None
     \<Longrightarrow> KrakenResource vf = Some r
     \<Longrightarrow> String_ToApplicableValue parseJSON s dv
         = getValueFromKrakenResource parseJSON T_string r (FromKrakenResources dv)"
  by (simp add: String_ToApplicableValue_def)

lemma Int_resource_path:
  "int_Value i = None \<Longrightarrow> int_ValueFrom i = Some vf \<Longrightarrow> ConfigMap vf = None
     \<Longrightarrow> KrakenResource vf = Some r
     \<Longrightarrow> Int_ToApplicableValue parseJSON outOfRange i dv
         = (case getValueFromKrakenResource parseJSON T_float64 r (FromKrakenResources dv) of
              Panicked p \<Rightarrow> Panicked p
            | Returned valFloat (Some err) \<Rightarrow> Returned None (Some err)
            | Returned None None \<Rightarrow> Panicked NilDereference
            | Returned (Some f) None \<Rightarrow> Returned (Some (int_of_float64 outOfRange f)) None)"
  by (simp add: Int_ToApplicableValue_def)

text \<open>
  Claim C10: resolution of a KrakenResource reference is not total. When the payload of
  the bag entry parses to the JSON null, \<^verbatim>\<open>data\<close> is nil, \<^verbatim>\<open>reflect.TypeOf(data)\<close> is the
  nil \<^verbatim>\<open>Type\<close> and the call of \<^verbatim>\<open>Kind()\<close> on it panics: no value and no error is returned,
  by \<^verbatim>\<open>getValueFromKrakenResource\<close> at any type and by both options.
\<close>

theorem null_payload_panics:
  assumes "FromKrakenResources dv (kr_Kind r) = Some kind" and "kind (kr_Name r) = Some resource"
    and "resource (kr_Path r) = Some jsonVal" and "parseJSON (Raw jsonVal) = Inr JNil"
    and "ConfigMap vf = None" and "KrakenResource vf = Some r"
    and "str_Value s = None" and "str_ValueFrom s = Some vf"
    and "int_Value i = None" and "int_ValueFrom i = Some vf"
  shows "getValueFromKrakenResource parseJSON T r (FromKrakenResources dv)
           = Panicked NilDereference
       \<and> String_ToApplicableValue parseJSON s dv = Panicked NilDereference
       \<and> Int_ToApplicableValue parseJSON outOfRange i dv = Panicked NilDereference"
proof -
  have g: "getValueFromKrakenResource parseJSON T r (FromKrakenResources dv)
      = Panicked NilDereference" for T :: "'b gotype"
    using assms(1-4) by (simp add: getValueFromKrakenResource_parsed)
  have "String_ToApplicableValue parseJSON s dv = Panicked NilDereference"
    using assms(5-8) g [of T_string] by (simp add: String_resource_path)
  moreover have "Int_ToApplicableValue parseJSON outOfRange i dv = Panicked NilDereference"
    using assms(5,6,9,10) g [of T_float64] by (simp add: Int_resource_path)
  ultimately show ?thesis using g [of T] by simp
qed

theorem null_payload_panics_witness:
  "String_ToApplicableValue (\<lambda>raw. if raw = ''null'' then Inr JNil else Inl ''invalid'')
       \<lparr>str_Value = None, str_ValueFrom = Some \<lparr>ConfigMap = None, Secret = None,
          KrakenResource = Some \<lparr>kr_Kind = ''Deployment'', kr_Name = ''web'',
             kr_Path = ''replicas''\<rparr>\<rparr>\<rparr>
       \<lparr>FromConfigMaps = Map.empty,
        FromKrakenResources = [''Deployment'' \<mapsto> [''web'' \<mapsto> [''replicas'' \<mapsto> \<lparr>Raw = ''null''\<rparr>]]]\<rparr>
     = Panicked NilDereference
   \<and> Int_ToApplicableValue (\<lambda>raw. if raw = ''null'' then Inr JNil else Inl ''invalid'') (\<lambda>f. 0)
       \<lparr>int_Value = None, int_ValueFrom = Some \<lparr>ConfigMap = None, Secret = None,
          KrakenResource = Some \<lparr>kr_Kind = ''Deployment'', kr_Name = ''web'',
             kr_Path = ''replicas''\<rparr>\<rparr>\<rparr>
       \<lparr>FromConfigMaps = Map.empty,
        FromKrakenResources = [''Deployment'' \<mapsto> [''web'' \<mapsto> [''replicas'' \<mapsto> \<lparr>Raw = ''null''\<rparr>]]]\<rparr>
     = Panicked NilDereference"
proof -
  let ?r = "\<lparr>kr_Kind = ''Deployment'', kr_Name = ''web'', kr_Path = ''replicas''\<rparr>"
  let ?vf = "\<lparr>ConfigMap = None, Secret = None, KrakenResource = Some ?r\<rparr>"
  let ?s = "\<lparr>str_Value = None, str_ValueFrom = Some ?vf\<rparr>"
  let ?i = "\<lparr>int_Value = None, int_ValueFrom = Some ?vf\<rparr>"
  let ?dv = "\<lparr>FromConfigMaps = Map.empty,
        FromKrakenResources = [''Deployment'' \<mapsto> [''web'' \<mapsto> [''replicas'' \<mapsto> \<lparr>Raw = ''null''\<rparr>]]]\<rparr>"
  let ?p = "\<lambda>raw. if raw = ''null'' then Inr JNil else (Inl ''invalid'' :: string + jdata)"
  show ?thesis
    using null_payload_panics [where dv = ?dv and r = ?r and parseJSON = ?p and vf = ?vf
        and s = ?s and i = ?i and T = T_string and outOfRange = "\<lambda>f. 0"
        and kind = "[''web'' \<mapsto> [''replicas'' \<mapsto> \<lparr>Raw = ''null''\<rparr>]]"
        and resource = "[''replicas'' \<mapsto> \<lparr>Raw = ''null''\<rparr>]"
        and jsonVal = "\<lparr>Raw = ''null''\<rparr>"]
    by simp
qed

subsection \<open>Parsing of decimal integers\<close>

lemma foldl_digits_ge: "n \<le> foldl (\<lambda>n c. n * 10 + digitVal c) n ds"
proof (induction ds arbitrary: n)
  case Nil
  show ?case by simp
next
  case (Cons c cs)
  have "n \<le> n * 10 + digitVal c" by simp
  also have "\<dots> \<le> foldl (\<lambda>n c. n * 10 + digitVal c) (n * 10 + digitVal c) cs"
    by (rule Cons.IH)
  finally show ?case by simp
qed

lemma parseUintLoop_Inr:
  "n \<le> maxUint64 \<Longrightarrow>
     parseUintLoop n ds = Inr m \<longleftrightarrow>
       list_all isDigit ds \<and> foldl (\<lambda>n c. n * 10 + digitVal c) n ds = m \<and> m \<le> maxUint64"
proof (induction ds arbitrary: n)
  case Nil
  then show ?case by auto
next
  case (Cons c cs)
  let ?n' = "n * 10 + digitVal c"
  have ge: "?n' \<le> foldl (\<lambda>n c. n * 10 + digitVal c) ?n' cs"
    by (rule foldl_digits_ge)
  show ?case
  proof (cases "isDigit c")
    case False
    then show ?thesis by simp
  next
    case True
    show ?thesis
    proof (cases "?n' > maxUint64")
      case over: True
      then have "parseUintLoop n (c # cs) = Inl ErrRange"
        using True by simp
      moreover have "\<not> foldl (\<lambda>n c. n * 10 + digitVal c) ?n' cs \<le> maxUint64"
        using over ge by linarith
      ultimately show ?thesis by auto
    next
      case fits: False
      then have small: "\<not> n \<ge> maxUint64 div 10 + 1"
        by (simp add: maxUint64_def)
      have "parseUintLoop n (c # cs) = parseUintLoop ?n' cs"
        using True fits small by simp
      moreover have "?n' \<le> maxUint64" using fits by simp
      ultimately show ?thesis
        using Cons.IH [of ?n'] True by simp
    qed
  qed
qed

lemma Atoi_Inr_iff: "Atoi s = Inr v \<longleftrightarrow> spec_parse_base10 s = Some v"
proof (cases "s = []")
  case True
  then show ?thesis by (simp add: Atoi_def spec_parse_base10_def)
next
  case nonempty: False
  define neg where "neg = (hd s = CHR ''-'')"
  define ds where "ds = (if hd s = CHR ''+'' \<or> hd s = CHR ''-'' then tl s else s)"
  have spec: "spec_parse_base10 s =
      (let v = (if neg then - int (decimalValue ds) else int (decimalValue ds))
       in if ds \<noteq> [] \<and> list_all isDigit ds \<and> - (2 ^ 63) \<le> v \<and> v < 2 ^ 63 then Some v
          else None)"
    unfolding spec_parse_base10_def neg_def ds_def Let_def using nonempty by simp
  have code: "Atoi s =
      (if ds = [] then Inl ErrSyntax
       else (case parseUintLoop 0 ds of
               Inl e \<Rightarrow> Inl e
             | Inr un \<Rightarrow>
                 if \<not> neg \<and> un \<ge> 2 ^ 63 then Inl ErrRange
                 else if neg \<and> un > 2 ^ 63 then Inl ErrRange
                 else Inr (if neg then - int un else int un)))"
    unfolding Atoi_def neg_def ds_def Let_def using nonempty by simp
  show ?thesis
  proof (cases "ds = []")
    case True
    then show ?thesis by (simp add: spec code)
  next
    case ne: False
    have loop: "parseUintLoop 0 ds = Inr m \<longleftrightarrow>
        list_all isDigit ds \<and> decimalValue ds = m \<and> m \<le> maxUint64" for m
      using parseUintLoop_Inr [of 0 ds m] by (simp add: decimalValue_def maxUint64_def)
    show ?thesis
    proof (cases "parseUintLoop 0 ds")
      case (Inl e)
      then have "\<not> (list_all isDigit ds \<and> decimalValue ds \<le> maxUint64)"
        using loop [of "decimalValue ds"] by auto
      then have "spec_parse_base10 s = None"
        by (auto simp: spec Let_def maxUint64_def)
      then show ?thesis using Inl ne by (simp add: code)
    next
      case (Inr un)
      then have d: "list_all isDigit ds" "decimalValue ds = un"
        using loop [of un] by auto
      show ?thesis
        using Inr ne d by (auto simp: code spec Let_def)
    qed
  qed
qed

lemma Atoi_Inl_iff: "(\<exists>e. Atoi s = Inl e) \<longleftrightarrow> spec_parse_base10 s = None"
proof (cases "Atoi s")
  case (Inl e)
  then have "spec_parse_base10 s \<noteq> Some v" for v
    using Atoi_Inr_iff [of s v] by simp
  then show ?thesis using Inl by auto
next
  case (Inr v)
  then show ?thesis using Atoi_Inr_iff [of s v] by simp
qed

lemma Atoi_42: "Atoi ''42'' = Inr 42"
  by (simp add: Atoi_def isDigit_def digitVal_def maxUint64_def)


text \<open>
  Claim C5: an \<^verbatim>\<open>Int\<close> option with no literal that references a ConfigMap entry parses the
  string found there as a base-10 integer. If the string is a decimal numeral (an optional
  sign and at least one decimal digit, the value in the range of \<^verbatim>\<open>int\<close>) the result is its
  value; otherwise the result is nil with the \<^verbatim>\<open>NumError\<close> of \<^verbatim>\<open>Atoi\<close>. The string
  \<^verbatim>\<open>"42"\<close> gives 42.
\<close>

theorem Int_from_ConfigMap_parses_base10:
  assumes "int_Value i = None" and "int_ValueFrom i = Some vf" and "ConfigMap vf = Some r"
    and "FromConfigMaps dv (cm_Name r) = Some cm" and "cm (cm_Key r) = Some str"
  shows "(\<forall>v. spec_parse_base10 str = Some v \<longrightarrow>
            Int_ToApplicableValue parseJSON outOfRange i dv = Returned (Some v) None)
       \<and> (spec_parse_base10 str = None \<longrightarrow>
            (\<exists>e. Int_ToApplicableValue parseJSON outOfRange i dv
                  = Returned None (Some (NumError str e))))
       \<and> (str = ''42'' \<longrightarrow>
            Int_ToApplicableValue parseJSON outOfRange i dv = Returned (Some 42) None)"
proof -
  have g: "getValueFromConfigMap r (FromConfigMaps dv) = Returned (Some str) None"
    using assms(4,5) by (rule getValueFromConfigMap_found)
  have res: "Int_ToApplicableValue parseJSON outOfRange i dv
      = (case Atoi str of Inl e \<Rightarrow> Returned None (Some (NumError str e))
         | Inr val \<Rightarrow> Returned (Some val) None)"
    using assms(1-3) g by (rule Int_config_path_found)
  have ok: "Int_ToApplicableValue parseJSON outOfRange i dv = Returned (Some v) None"
    if "spec_parse_base10 str = Some v" for v
  proof -
    from that have "Atoi str = Inr v" by (simp add: Atoi_Inr_iff)
    then show ?thesis by (simp add: res)
  qed
  have bad: "\<exists>e. Int_ToApplicableValue parseJSON outOfRange i dv
      = Returned None (Some (NumError str e))"
    if "spec_parse_base10 str = None"
  proof -
    from that obtain e where "Atoi str = Inl e"
      using Atoi_Inl_iff [of str] by auto
    then show ?thesis by (auto simp: res)
  qed
  have "Int_ToApplicableValue parseJSON outOfRange i dv = Returned (Some 42) None"
    if "str = ''42''"
    using that by (simp add: res Atoi_42)
  with ok bad show ?thesis by blast
qed

theorem Int_from_ConfigMap_parses_base10_witness:
  "Int_ToApplicableValue (\<lambda>raw. Inl ''no parser'') (\<lambda>f. 0)
      \<lparr>int_Value = None, int_ValueFrom = Some \<lparr>ConfigMap = Some \<lparr>cm_Name = ''cfg'', cm_Key = ''port''\<rparr>,
         Secret = None, KrakenResource = None\<rparr>\<rparr>
      \<lparr>FromConfigMaps = [''cfg'' \<mapsto> [''port'' \<mapsto> ''42'']], FromKrakenResources = Map.empty\<rparr>
     = Returned (Some 42) None
   \<and> (\<exists>e. Int_ToApplicableValue (\<lambda>raw. Inl ''no parser'') (\<lambda>f. 0)
      \<lparr>int_Value = None, int_ValueFrom = Some \<lparr>ConfigMap = Some \<lparr>cm_Name = ''cfg'', cm_Key = ''port''\<rparr>,
         Secret = None, KrakenResource = None\<rparr>\<rparr>
      \<lparr>FromConfigMaps = [''cfg'' \<mapsto> [''port'' \<mapsto> ''4 2'']], FromKrakenResources = Map.empty\<rparr>
     = Returned None (Some (NumError ''4 2'' e)))"
proof -
  let ?r = "\<lparr>cm_Name = ''cfg'', cm_Key = ''port''\<rparr>"
  let ?vf = "\<lparr>ConfigMap = Some ?r, Secret = None, KrakenResource = None\<rparr>"
  let ?i = "\<lparr>int_Value = None, int_ValueFrom = Some ?vf\<rparr>"
  have bad: "spec_parse_base10 ''4 2'' = None"
    by (simp add: spec_parse_base10_def isDigit_def)
  show ?thesis
    using Int_from_ConfigMap_parses_base10 [where i = ?i and vf = ?vf and r = ?r
        and dv = "\<lparr>FromConfigMaps = [''cfg'' \<mapsto> [''port'' \<mapsto> ''42'']],
                   FromKrakenResources = Map.empty\<rparr>"
        and cm = "[''port'' \<mapsto> ''42'']" and str = "''42''"
        and parseJSON = "\<lambda>raw. Inl ''no parser''" and outOfRange = "\<lambda>f. 0"]
      Int_from_ConfigMap_parses_base10 [where i = ?i and vf = ?vf and r = ?r
        and dv = "\<lparr>FromConfigMaps = [''cfg'' \<mapsto> [''port'' \<mapsto> ''4 2'']],
                   FromKrakenResources = Map.empty\<rparr>"
        and cm = "[''port'' \<mapsto> ''4 2'']" and str = "''4 2''"
        and parseJSON = "\<lambda>raw. Inl ''no parser''" and outOfRange = "\<lambda>f. 0"]
      bad
    by simp
qed

subsection \<open>Integers from KrakenResource payloads\<close>

lemma truncation_toward_zero:
  "\<bar>of_int (truncation q)\<bar> \<le> \<bar>q\<bar> \<and> \<bar>q - of_int (truncation q)\<bar> < 1
   \<and> (0 \<le> q \<longrightarrow> 0 \<le> truncation q) \<and> (q \<le> 0 \<longrightarrow> truncation q \<le> 0)"
proof (cases "0 \<le> q")
  case True
  then have "truncation q = \<lfloor>q\<rfloor>" by (simp add: truncation_def)
  moreover have "0 \<le> \<lfloor>q\<rfloor>" using True by simp
  moreover have "of_int \<lfloor>q\<rfloor> \<le> q" "q < of_int \<lfloor>q\<rfloor> + 1" by linarith+
  ultimately show ?thesis using True by auto
next
  case False
  then have t: "truncation q = \<lceil>q\<rceil>" by (simp add: truncation_def)
  have "\<lceil>q\<rceil> \<le> 0" using False by simp
  moreover have "q \<le> of_int \<lceil>q\<rceil>" "of_int \<lceil>q\<rceil> < q + 1" by linarith+
  ultimately show ?thesis using False t by auto
qed

lemma int_of_float64_in_range:
  "- (2 ^ 63) \<le> truncation q \<Longrightarrow> truncation q < 2 ^ 63
     \<Longrightarrow> int_of_float64 outOfRange (Finite q) = truncation q"
  by (simp add: int_of_float64_def)

lemma int_of_float64_bounds:
  "- (2 ^ 63) \<le> int_of_float64 outOfRange f \<and> int_of_float64 outOfRange f < 2 ^ 63"
proof -
  have "- (2 ^ 63) \<le> sint (w :: 64 word) \<and> sint w < 2 ^ 63" for w
    using sint_ge [of w] sint_lt [of w] by simp
  then show ?thesis
    by (cases f) (auto simp: int_of_float64_def)
qed

lemma Int_resource_float:
  assumes "int_Value i = None" and "int_ValueFrom i = Some vf" and "ConfigMap vf = None"
    and "KrakenResource vf = Some r"
    and "FromKrakenResources dv (kr_Kind r) = Some kind" and "kind (kr_Name r) = Some resource"
    and "resource (kr_Path r) = Some jsonVal" and "parseJSON (Raw jsonVal) = Inr (JFloat64 f)"
  shows "Int_ToApplicableValue parseJSON outOfRange i dv
           = Returned (Some (int_of_float64 outOfRange f)) None"
proof -
  have "getValueFromKrakenResource parseJSON T_float64 r (FromKrakenResources dv)
      = Returned (Some f) None"
    using assms(5-8) by (simp add: getValueFromKrakenResource_parsed T_float64_def)
  then show ?thesis
    using assms(1-4) by (simp add: Int_resource_path)
qed

lemma Int_resource_wrong_kind:
  assumes "int_Value i = None" and "int_ValueFrom i = Some vf" and "ConfigMap vf = None"
    and "KrakenResource vf = Some r"
    and "FromKrakenResources dv (kr_Kind r) = Some kind" and "kind (kr_Name r) = Some resource"
    and "resource (kr_Path r) = Some jsonVal" and "parseJSON (Raw jsonVal) = Inr data"
    and "TypeOf_Kind data = Some k" and "k \<noteq> KFloat64"
  shows "Int_ToApplicableValue parseJSON outOfRange i dv
           = Returned None (Some (WrongType data k KFloat64))"
proof -
  have "getValueFromKrakenResource parseJSON T_float64 r (FromKrakenResources dv)
      = Returned None (Some (WrongType data k KFloat64))"
    using assms(5-10) by (simp add: getValueFromKrakenResource_parsed T_float64_def)
  then show ?thesis
    using assms(1-4) by (simp add: Int_resource_path)
qed

lemma Int_resource_out_of_range:
  assumes "int_Value i = None" and "int_ValueFrom i = Some vf" and "ConfigMap vf = None"
    and "KrakenResource vf = Some r"
    and "FromKrakenResources dv (kr_Kind r) = Some kind" and "kind (kr_Name r) = Some resource"
    and "resource (kr_Path r) = Some jsonVal"
    and "parseJSON (Raw jsonVal) = Inr (JFloat64 (Finite q))"
    and "2 ^ 63 \<le> truncation q"
  shows "Int_ToApplicableValue parseJSON outOfRange i dv \<noteq> Returned (Some (truncation q)) None"
proof -
  have "Int_ToApplicableValue parseJSON outOfRange i dv
      = Returned (Some (int_of_float64 outOfRange (Finite q))) None"
    using assms(1-8) by (rule Int_resource_float)
  moreover have "int_of_float64 outOfRange (Finite q) < 2 ^ 63"
    using int_of_float64_bounds [of outOfRange "Finite q"] by simp
  ultimately show ?thesis using assms(9) by auto
qed

text \<open>
  Claim C4 as stated fails in two places. A payload whose JSON shape is not numeric may be
  \<^verbatim>\<open>null\<close>: resolution then panics and returns no type-mismatch error. And the
  \<^verbatim>\<open>float64\<close> a numeric payload parses to may lie outside the range of \<^verbatim>\<open>int\<close>: the
  result of the conversion is then whatever the implementation gives (here the smallest
  \<^verbatim>\<open>int\<close>, as on amd64). For the payload \<^verbatim>\<open>1e19\<close> no 64-bit value is its truncation. The
  payload \<^verbatim>\<open>9223372036854775807\<close> is itself an \<^verbatim>\<open>int\<close>, but the nearest \<^verbatim>\<open>float64\<close>, to
  which it parses, is \<open>2 ^ 63\<close>, and the result is not the payload.
\<close>

theorem Int_resource_null_and_overflow_counterexample:
  "Int_ToApplicableValue
       (\<lambda>raw. if raw = ''null'' then Inr JNil
              else if raw = ''1e19'' then Inr (JFloat64 (Finite 10000000000000000000))
              else Inl ''invalid'')
       (\<lambda>f. - 9223372036854775808)
       \<lparr>int_Value = None, int_ValueFrom = Some \<lparr>ConfigMap = None, Secret = None,
          KrakenResource = Some \<lparr>kr_Kind = ''Deployment'', kr_Name = ''web'',
             kr_Path = ''replicas''\<rparr>\<rparr>\<rparr>
       \<lparr>FromConfigMaps = Map.empty,
        FromKrakenResources = [''Deployment'' \<mapsto> [''web'' \<mapsto> [''replicas'' \<mapsto> \<lparr>Raw = ''null''\<rparr>]]]\<rparr>
     = Panicked NilDereference
   \<and> Int_ToApplicableValue
       (\<lambda>raw. if raw = ''null'' then Inr JNil
              else if raw = ''1e19'' then Inr (JFloat64 (Finite 10000000000000000000))
              else Inl ''invalid'')
       (\<lambda>f. - 9223372036854775808)
       \<lparr>int_Value = None, int_ValueFrom = Some \<lparr>ConfigMap = None, Secret = None,
          KrakenResource = Some \<lparr>kr_Kind = ''Deployment'', kr_Name = ''web'',
             kr_Path = ''replicas''\<rparr>\<rparr>\<rparr>
       \<lparr>FromConfigMaps = Map.empty,
        FromKrakenResources = [''Deployment'' \<mapsto> [''web'' \<mapsto> [''replicas'' \<mapsto> \<lparr>Raw = ''1e19''\<rparr>]]]\<rparr>
     \<noteq> Returned (Some (truncation 10000000000000000000)) None
   \<and> Int_ToApplicableValue
       (\<lambda>raw. if raw = ''9223372036854775807''
              then Inr (JFloat64 (Finite 9223372036854775808))
              else Inl ''invalid'')
       (\<lambda>f. - 9223372036854775808)
       \<lparr>int_Value = None, int_ValueFrom = Some \<lparr>ConfigMap = None, Secret = None,
          KrakenResource = Some \<lparr>kr_Kind = ''Deployment'', kr_Name = ''web'',
             kr_Path = ''replicas''\<rparr>\<rparr>\<rparr>
       \<lparr>FromConfigMaps = Map.empty,
        FromKrakenResources = [''Deployment'' \<mapsto> [''web'' \<mapsto>
           [''replicas'' \<mapsto> \<lparr>Raw = ''9223372036854775807''\<rparr>]]]\<rparr>
     \<noteq> Returned (Some 9223372036854775807) None"
proof -
  let ?p = "\<lambda>raw. if raw = ''null'' then Inr JNil
              else if raw = ''1e19'' then Inr (JFloat64 (Finite 10000000000000000000))
              else (Inl ''invalid'' :: string + jdata)"
  let ?r = "\<lparr>kr_Kind = ''Deployment'', kr_Name = ''web'', kr_Path = ''replicas''\<rparr>"
  let ?vf = "\<lparr>ConfigMap = None, Secret = None, KrakenResource = Some ?r\<rparr>"
  let ?i = "\<lparr>int_Value = None, int_ValueFrom = Some ?vf\<rparr>"
  have t: "truncation 10000000000000000000 = 10000000000000000000"
    by (simp add: truncation_def)
  have a: "Int_ToApplicableValue ?p (\<lambda>f. - 9223372036854775808) ?i
       \<lparr>FromConfigMaps = Map.empty,
        FromKrakenResources = [''Deployment'' \<mapsto> [''web'' \<mapsto> [''replicas'' \<mapsto> \<lparr>Raw = ''null''\<rparr>]]]\<rparr>
     = Panicked NilDereference"
    by (simp add: Int_ToApplicableValue_def getValueFromKrakenResource_def)
  have b: "Int_ToApplicableValue ?p (\<lambda>f. - 9223372036854775808) ?i
       \<lparr>FromConfigMaps = Map.empty,
        FromKrakenResources = [''Deployment'' \<mapsto> [''web'' \<mapsto> [''replicas'' \<mapsto> \<lparr>Raw = ''1e19''\<rparr>]]]\<rparr>
     \<noteq> Returned (Some (truncation 10000000000000000000)) None"
    by (rule Int_resource_out_of_range [where vf = ?vf and r = ?r
          and kind = "[''web'' \<mapsto> [''replicas'' \<mapsto> \<lparr>Raw = ''1e19''\<rparr>]]"
          and resource = "[''replicas'' \<mapsto> \<lparr>Raw = ''1e19''\<rparr>]"
          and jsonVal = "\<lparr>Raw = ''1e19''\<rparr>"]) (simp_all add: t)
  let ?p' = "\<lambda>raw. if raw = ''9223372036854775807''
              then Inr (JFloat64 (Finite 9223372036854775808))
              else (Inl ''invalid'' :: string + jdata)"
  let ?dv' = "\<lparr>FromConfigMaps = Map.empty,
        FromKrakenResources = [''Deployment'' \<mapsto> [''web'' \<mapsto>
           [''replicas'' \<mapsto> \<lparr>Raw = ''9223372036854775807''\<rparr>]]]\<rparr>"
  have t': "truncation 9223372036854775808 = 9223372036854775808"
    by (simp add: truncation_def)
  have "Int_ToApplicableValue ?p' (\<lambda>f. - 9223372036854775808) ?i ?dv'
      = Returned (Some (int_of_float64 (\<lambda>f. - 9223372036854775808)
                          (Finite 9223372036854775808))) None"
    by (rule Int_resource_float [where vf = ?vf and r = ?r
          and kind = "[''web'' \<mapsto> [''replicas'' \<mapsto> \<lparr>Raw = ''9223372036854775807''\<rparr>]]"
          and resource = "[''replicas'' \<mapsto> \<lparr>Raw = ''9223372036854775807''\<rparr>]"
          and jsonVal = "\<lparr>Raw = ''9223372036854775807''\<rparr>"]) simp_all
  moreover have "int_of_float64 (\<lambda>f. - 9223372036854775808) (Finite 9223372036854775808)
      \<noteq> 9223372036854775807"
    by (simp add: int_of_float64_def t')
  ultimately have c: "Int_ToApplicableValue ?p' (\<lambda>f. - 9223372036854775808) ?i ?dv'
      \<noteq> Returned (Some 9223372036854775807) None"
    by simp
  from a b c show ?thesis by (intro conjI)
qed

text \<open>
  Claim C4, amended: take an \<^verbatim>\<open>Int\<close> option with no literal whose reference is a
  KrakenResource (and no ConfigMap) with an entry in the bag whose payload parses. If the
  payload parses to a finite \<^verbatim>\<open>float64\<close> \<open>q\<close> (the parsed value, which need not be the
  number the payload's text denotes) and the truncation of \<open>q\<close> toward zero is at least
  \<open>- 2 ^ 63\<close> and less than \<open>2 ^ 63\<close>, resolution returns that truncation: the integer that
  is no larger than \<open>q\<close> in absolute value, less than 1 away from \<open>q\<close> and of the sign of
  \<open>q\<close>. If the payload parses to a non-nil value of another kind (a string, a boolean, an
  array, an object), resolution returns nil with the type-mismatch error that carries the
  value, its actual kind and the expected kind \<^verbatim>\<open>float64\<close>.
\<close>

theorem Int_from_resource_truncates_or_mismatch:
  assumes "int_Value i = None" and "int_ValueFrom i = Some vf" and "ConfigMap vf = None"
    and "KrakenResource vf = Some r"
    and "FromKrakenResources dv (kr_Kind r) = Some kind" and "kind (kr_Name r) = Some resource"
    and "resource (kr_Path r) = Some jsonVal" and "parseJSON (Raw jsonVal) = Inr data"
  shows "(\<forall>q. data = JFloat64 (Finite q) \<and> - (2 ^ 63) \<le> truncation q \<and> truncation q < 2 ^ 63 \<longrightarrow>
            Int_ToApplicableValue parseJSON outOfRange i dv = Returned (Some (truncation q)) None
          \<and> \<bar>of_int (truncation q)\<bar> \<le> \<bar>q\<bar> \<and> \<bar>q - of_int (truncation q)\<bar> < 1
          \<and> (0 \<le> q \<longrightarrow> 0 \<le> truncation q) \<and> (q \<le> 0 \<longrightarrow> truncation q \<le> 0))
       \<and> (\<forall>k. TypeOf_Kind data = Some k \<and> k \<noteq> KFloat64 \<longrightarrow>
            Int_ToApplicableValue parseJSON outOfRange i dv
              = Returned None (Some (WrongType data k KFloat64)))"
proof (intro conjI allI impI)
  fix q
  assume h: "data = JFloat64 (Finite q) \<and> - (2 ^ 63) \<le> truncation q \<and> truncation q < 2 ^ 63"
  have "Int_ToApplicableValue parseJSON outOfRange i dv
      = Returned (Some (int_of_float64 outOfRange (Finite q))) None"
    using assms h by (simp add: Int_resource_float)
  then show "Int_ToApplicableValue parseJSON outOfRange i dv = Returned (Some (truncation q)) None"
    using h by (simp add: int_of_float64_in_range)
  show "\<bar>of_int (truncation q)\<bar> \<le> \<bar>q\<bar>" "\<bar>q - of_int (truncation q)\<bar> < 1"
    using truncation_toward_zero [of q] by simp_all
  { assume "0 \<le> q" then show "0 \<le> truncation q" using truncation_toward_zero [of q] by simp }
  { assume "q \<le> 0" then show "truncation q \<le> 0" using truncation_toward_zero [of q] by simp }
next
  fix k
  assume "TypeOf_Kind data = Some k \<and> k \<noteq> KFloat64"
  then show "Int_ToApplicableValue parseJSON outOfRange i dv
      = Returned None (Some (WrongType data k KFloat64))"
    using assms by (simp add: Int_resource_wrong_kind)
qed

theorem Int_from_resource_truncates_or_mismatch_witness:
  "Int_ToApplicableValue
       (\<lambda>raw. if raw = ''3.9''
              then Inr (JFloat64 (Finite (8782019273372467 / 2251799813685248)))
              else if raw = CHR 0x22 # ''hello'' @ [CHR 0x22] then Inr (JString ''hello'')
              else Inl ''invalid'')
       (\<lambda>f. 0)
       \<lparr>int_Value = None, int_ValueFrom = Some \<lparr>ConfigMap = None, Secret = None,
          KrakenResource = Some \<lparr>kr_Kind = ''Deployment'', kr_Name = ''web'',
             kr_Path = ''replicas''\<rparr>\<rparr>\<rparr>
       \<lparr>FromConfigMaps = Map.empty,
        FromKrakenResources = [''Deployment'' \<mapsto> [''web'' \<mapsto> [''replicas'' \<mapsto> \<lparr>Raw = ''3.9''\<rparr>]]]\<rparr>
     = Returned (Some 3) None
   \<and> Int_ToApplicableValue
       (\<lambda>raw. if raw = ''3.9''
              then Inr (JFloat64 (Finite (8782019273372467 / 2251799813685248)))
              else if raw = CHR 0x22 # ''hello'' @ [CHR 0x22] then Inr (JString ''hello'')
              else Inl ''invalid'')
       (\<lambda>f. 0)
       \<lparr>int_Value = None, int_ValueFrom = Some \<lparr>ConfigMap = None, Secret = None,
          KrakenResource = Some \<lparr>kr_Kind = ''Deployment'', kr_Name = ''web'',
             kr_Path = ''replicas''\<rparr>\<rparr>\<rparr>
       \<lparr>FromConfigMaps = Map.empty,
        FromKrakenResources = [''Deployment'' \<mapsto> [''web'' \<mapsto>
           [''replicas'' \<mapsto> \<lparr>Raw = CHR 0x22 # ''hello'' @ [CHR 0x22]\<rparr>]]]\<rparr>
     = Returned None (Some (WrongType (JString ''hello'') KString KFloat64))"
proof -
  let ?p = "\<lambda>raw. if raw = ''3.9''
              then Inr (JFloat64 (Finite (8782019273372467 / 2251799813685248)))
              else if raw = CHR 0x22 # ''hello'' @ [CHR 0x22] then Inr (JString ''hello'')
              else (Inl ''invalid'' :: string + jdata)"
  let ?r = "\<lparr>kr_Kind = ''Deployment'', kr_Name = ''web'', kr_Path = ''replicas''\<rparr>"
  let ?vf = "\<lparr>ConfigMap = None, Secret = None, KrakenResource = Some ?r\<rparr>"
  let ?i = "\<lparr>int_Value = None, int_ValueFrom = Some ?vf\<rparr>"
  let ?hello = "CHR 0x22 # ''hello'' @ [CHR 0x22]"
  let ?q = "8782019273372467 / 2251799813685248 :: rat"
  let ?dv1 = "\<lparr>FromConfigMaps = Map.empty,
          FromKrakenResources = [''Deployment'' \<mapsto> [''web'' \<mapsto> [''replicas'' \<mapsto> \<lparr>Raw = ''3.9''\<rparr>]]]\<rparr>"
  let ?dv2 = "\<lparr>FromConfigMaps = Map.empty,
          FromKrakenResources = [''Deployment'' \<mapsto> [''web'' \<mapsto> [''replicas'' \<mapsto> \<lparr>Raw = ?hello\<rparr>]]]\<rparr>"
  have t: "truncation ?q = 3"
    by (simp add: truncation_def floor_eq_iff)
  have "\<forall>q. JFloat64 (Finite ?q) = JFloat64 (Finite q) \<and> - (2 ^ 63) \<le> truncation q
          \<and> truncation q < 2 ^ 63 \<longrightarrow>
            Int_ToApplicableValue ?p (\<lambda>f. 0) ?i ?dv1 = Returned (Some (truncation q)) None
          \<and> \<bar>of_int (truncation q)\<bar> \<le> \<bar>q\<bar> \<and> \<bar>q - of_int (truncation q)\<bar> < 1
          \<and> (0 \<le> q \<longrightarrow> 0 \<le> truncation q) \<and> (q \<le> 0 \<longrightarrow> truncation q \<le> 0)"
    by (rule Int_from_resource_truncates_or_mismatch [where i = ?i and vf = ?vf and r = ?r
        and parseJSON = ?p and outOfRange = "\<lambda>f. 0" and dv = ?dv1
        and kind = "[''web'' \<mapsto> [''replicas'' \<mapsto> \<lparr>Raw = ''3.9''\<rparr>]]"
        and resource = "[''replicas'' \<mapsto> \<lparr>Raw = ''3.9''\<rparr>]"
        and jsonVal = "\<lparr>Raw = ''3.9''\<rparr>"
        and data = "JFloat64 (Finite ?q)", THEN conjunct1]) simp_all
  then have "JFloat64 (Finite ?q) = JFloat64 (Finite ?q) \<and> - (2 ^ 63) \<le> truncation ?q
          \<and> truncation ?q < 2 ^ 63 \<longrightarrow>
            Int_ToApplicableValue ?p (\<lambda>f. 0) ?i ?dv1 = Returned (Some (truncation ?q)) None
          \<and> \<bar>of_int (truncation ?q)\<bar> \<le> \<bar>?q\<bar> \<and> \<bar>?q - of_int (truncation ?q)\<bar> < 1
          \<and> (0 \<le> ?q \<longrightarrow> 0 \<le> truncation ?q) \<and> (?q \<le> 0 \<longrightarrow> truncation ?q \<le> 0)"
    by (rule spec)
  then have a: "Int_ToApplicableValue ?p (\<lambda>f. 0) ?i ?dv1 = Returned (Some 3) None"
    unfolding t by simp
  have "\<forall>k. TypeOf_Kind (JString ''hello'') = Some k \<and> k \<noteq> KFloat64 \<longrightarrow>
            Int_ToApplicableValue ?p (\<lambda>f. 0) ?i ?dv2
              = Returned None (Some (WrongType (JString ''hello'') k KFloat64))"
    by (rule Int_from_resource_truncates_or_mismatch [where i = ?i and vf = ?vf and r = ?r
        and parseJSON = ?p and outOfRange = "\<lambda>f. 0" and dv = ?dv2
        and kind = "[''web'' \<mapsto> [''replicas'' \<mapsto> \<lparr>Raw = ?hello\<rparr>]]"
        and resource = "[''replicas'' \<mapsto> \<lparr>Raw = ?hello\<rparr>]"
        and jsonVal = "\<lparr>Raw = ?hello\<rparr>"
        and data = "JString ''hello''", THEN conjunct2]) simp_all
  then have b: "Int_ToApplicableValue ?p (\<lambda>f. 0) ?i ?dv2
      = Returned None (Some (WrongType (JString ''hello'') KString KFloat64))"
    by simp
  from a b show ?thesis by (rule conjI)
qed

subsection \<open>Resolution in memory\<close>

text \<open>
  The lemmas named \<open>sound\<close> relate each method on the memory to the functional model of
  the same method: the memory after the call is unchanged below the old allocation
  limit, and the result read through the returned pointer is the functional result.
\<close>

lemma unchanged_below_refl: "unchanged_below m m"
  by (simp add: unchanged_below_def)

lemma unchanged_below_trans:
  "unchanged_below m m1 \<Longrightarrow> unchanged_below m1 m2 \<Longrightarrow> unchanged_below m m2"
  by (auto simp: unchanged_below_def)

lemma new_string_unchanged: "new_string v m = (a, m') \<Longrightarrow> unchanged_below m m'"
  by (auto simp: new_string_def unchanged_below_def)

lemma new_int_unchanged: "new_int v m = (a, m') \<Longrightarrow> unchanged_below m m'"
  by (auto simp: new_int_def unchanged_below_def)

lemma new_float64_unchanged: "new_float64 v m = (a, m') \<Longrightarrow> unchanged_below m m'"
  by (auto simp: new_float64_def unchanged_below_def)


lemma deref_simps:
  "deref cells (Returned p e) = Returned (map_option cells p) e"
  "deref cells (Panicked x) = Panicked x"
  by (simp_all add: deref_def)

lemma getValueFromConfigMap_mem_sound:
  assumes "getValueFromConfigMap_mem p m = (res, m')"
  shows "unchanged_below m m'"
    and "deref (string_cells m') res
           = getValueFromConfigMap (ValueFromConfigMap_cells m p) (FromConfigMaps (bag m))"
  using assms
  by (auto simp: getValueFromConfigMap_mem_def getValueFromConfigMap_def deref_def
      new_string_def unchanged_below_def split: option.splits)

lemma getValueFromKrakenResource_mem_string_sound:
  assumes "getValueFromKrakenResource_mem parseJSON T_string_mem p m = (res, m')"
  shows "unchanged_below m m'"
    and "deref (string_cells m') res
           = getValueFromKrakenResource parseJSON T_string (ValueFromKrakenResource_cells m p)
               (FromKrakenResources (bag m))"
  using assms
  by (auto simp: getValueFromKrakenResource_mem_def getValueFromKrakenResource_def deref_def
      T_string_mem_def new_string_def unchanged_below_def Let_def
      split: option.splits sum.splits if_splits)

lemma getValueFromKrakenResource_mem_float64_sound:
  assumes "getValueFromKrakenResource_mem parseJSON T_float64_mem p m = (res, m')"
  shows "unchanged_below m m'"
    and "deref (float64_cells m') res
           = getValueFromKrakenResource parseJSON T_float64 (ValueFromKrakenResource_cells m p)
               (FromKrakenResources (bag m))"
  using assms
  by (auto simp: getValueFromKrakenResource_mem_def getValueFromKrakenResource_def deref_def
      T_float64_mem_def new_float64_def unchanged_below_def Let_def
      split: option.splits sum.splits if_splits)

lemma String_ToApplicableValue_mem_sound:
  assumes "String_ToApplicableValue_mem parseJSON s m = (res, m')"
  shows "unchanged_below m m'"
    and "deref (string_cells m') res
           = String_ToApplicableValue parseJSON (abs_String m s) (bag m)"
    and "abs_String m' s = abs_String m s"
proof -
  show u: "unchanged_below m m'"
    using assms
    by (auto simp: String_ToApplicableValue_mem_def unchanged_below_refl
        getValueFromConfigMap_mem_sound(1) getValueFromKrakenResource_mem_string_sound(1)
        split: option.splits if_splits)
  show "deref (string_cells m') res
      = String_ToApplicableValue parseJSON (abs_String m s) (bag m)"
    using assms
    by (auto simp: String_ToApplicableValue_mem_def String_ToApplicableValue_def abs_String_def
        abs_ValueFrom_def deref_simps
        getValueFromConfigMap_mem_sound(2) getValueFromKrakenResource_mem_string_sound(2)
        split: option.splits if_splits)
  show "abs_String m' s = abs_String m s"
  proof (cases "str_Value_p s")
    case None
    then show ?thesis
      using u by (simp add: abs_String_def abs_ValueFrom_def unchanged_below_def)
  next
    case (Some a)
    then have "m' = m" using assms by (simp add: String_ToApplicableValue_mem_def)
    then show ?thesis by simp
  qed
qed


lemma Int_config_mem_sound:
  assumes g: "getValueFromConfigMap_mem cm m = (r1, m1)"
    and res: "(case (r1, m1) of
                  (Panicked p, m1) \<Rightarrow> (Panicked p, m1)
                | (Returned valString (Some err), m1) \<Rightarrow> (Returned None (Some err), m1)
                | (Returned None None, m1) \<Rightarrow> (Panicked NilDereference, m1)
                | (Returned (Some valString) None, m1) \<Rightarrow>
                    (case Atoi (string_cells m1 valString) of
                       Inl e \<Rightarrow> (Returned None (Some (NumError (string_cells m1 valString) e)), m1)
                     | Inr val \<Rightarrow>
                         (case new_int val m1 of (a, m2) \<Rightarrow> (Returned (Some a) None, m2))))
               = (res, m')"
  shows "unchanged_below m m'"
    and "deref (int_cells m') res
           = (case getValueFromConfigMap (ValueFromConfigMap_cells m cm) (FromConfigMaps (bag m)) of
                Panicked p \<Rightarrow> Panicked p
              | Returned valString (Some err) \<Rightarrow> Returned None (Some err)
              | Returned None None \<Rightarrow> Panicked NilDereference
              | Returned (Some str) None \<Rightarrow>
                  (case Atoi str of
                     Inl e \<Rightarrow> Returned None (Some (NumError str e))
                   | Inr val \<Rightarrow> Returned (Some val) None))"
proof -
  note u1 = getValueFromConfigMap_mem_sound(1) [OF g]
  note d1 = getValueFromConfigMap_mem_sound(2) [OF g, symmetric]
  have "unchanged_below m1 m'"
    using res
    by (auto simp: unchanged_below_refl new_int_def unchanged_below_def
        split: outcome.splits option.splits sum.splits)
  with u1 show "unchanged_below m m'" by (rule unchanged_below_trans)
  show "deref (int_cells m') res
           = (case getValueFromConfigMap (ValueFromConfigMap_cells m cm) (FromConfigMaps (bag m)) of
                Panicked p \<Rightarrow> Panicked p
              | Returned valString (Some err) \<Rightarrow> Returned None (Some err)
              | Returned None None \<Rightarrow> Panicked NilDereference
              | Returned (Some str) None \<Rightarrow>
                  (case Atoi str of
                     Inl e \<Rightarrow> Returned None (Some (NumError str e))
                   | Inr val \<Rightarrow> Returned (Some val) None))"
    unfolding d1 using res
    by (auto simp: deref_simps new_int_def split: outcome.splits option.splits sum.splits)
qed

lemma Int_resource_mem_sound:
  assumes g: "getValueFromKrakenResource_mem parseJSON T_float64_mem kr m = (r1, m1)"
    and res: "(case (r1, m1) of
                  (Panicked p, m1) \<Rightarrow> (Panicked p, m1)
                | (Returned valFloat (Some err), m1) \<Rightarrow> (Returned None (Some err), m1)
                | (Returned None None, m1) \<Rightarrow> (Panicked NilDereference, m1)
                | (Returned (Some valFloat) None, m1) \<Rightarrow>
                    (case new_int (int_of_float64 outOfRange (float64_cells m1 valFloat)) m1 of
                       (a, m2) \<Rightarrow> (Returned (Some a) None, m2)))
               = (res, m')"
  shows "unchanged_below m m'"
    and "deref (int_cells m') res
           = (case getValueFromKrakenResource parseJSON T_float64
                    (ValueFromKrakenResource_cells m kr) (FromKrakenResources (bag m)) of
                Panicked p \<Rightarrow> Panicked p
              | Returned valFloat (Some err) \<Rightarrow> Returned None (Some err)
              | Returned None None \<Rightarrow> Panicked NilDereference
              | Returned (Some f) None \<Rightarrow> Returned (Some (int_of_float64 outOfRange f)) None)"
proof -
  note u1 = getValueFromKrakenResource_mem_float64_sound(1) [OF g]
  note d1 = getValueFromKrakenResource_mem_float64_sound(2) [OF g, symmetric]
  have "unchanged_below m1 m'"
    using res
    by (auto simp: unchanged_below_refl new_int_def unchanged_below_def
        split: outcome.splits option.splits)
  with u1 show "unchanged_below m m'" by (rule unchanged_below_trans)
  show "deref (int_cells m') res
           = (case getValueFromKrakenResource parseJSON T_float64
                    (ValueFromKrakenResource_cells m kr) (FromKrakenResources (bag m)) of
                Panicked p \<Rightarrow> Panicked p
              | Returned valFloat (Some err) \<Rightarrow> Returned None (Some err)
              | Returned None None \<Rightarrow> Panicked NilDereference
              | Returned (Some f) None \<Rightarrow> Returned (Some (int_of_float64 outOfRange f)) None)"
    unfolding d1 using res
    by (auto simp: deref_simps new_int_def split: outcome.splits option.splits)
qed

lemma Int_ToApplicableValue_mem_sound:
  assumes "Int_ToApplicableValue_mem parseJSON outOfRange i m = (res, m')"
  shows "unchanged_below m m'"
    and "deref (int_cells m') res
           = Int_ToApplicableValue parseJSON outOfRange (abs_Int m i) (bag m)"
    and "abs_Int m' i = abs_Int m i"
proof -
  have both: "unchanged_below m m' \<and> deref (int_cells m') res
           = Int_ToApplicableValue parseJSON outOfRange (abs_Int m i) (bag m)"
  proof (cases "int_Value_p i")
    case (Some a)
    then show ?thesis
      using assms
      by (auto simp: Int_ToApplicableValue_mem_def Int_ToApplicableValue_def abs_Int_def
          deref_simps unchanged_below_refl)
  next
    case noval: None
    show ?thesis
    proof (cases "int_ValueFrom_p i")
      case None
      then show ?thesis
        using assms noval
        by (auto simp: Int_ToApplicableValue_mem_def Int_ToApplicableValue_def abs_Int_def
            deref_simps unchanged_below_refl)
    next
      case (Some vf)
      show ?thesis
      proof (cases "ConfigMap_p (ValueFrom_cells m vf)")
        case cm: (Some cm)
        obtain r1 m1 where g: "getValueFromConfigMap_mem cm m = (r1, m1)"
          by (cases "getValueFromConfigMap_mem cm m")
        have pure: "Int_ToApplicableValue parseJSON outOfRange (abs_Int m i) (bag m)
            = (case getValueFromConfigMap (ValueFromConfigMap_cells m cm) (FromConfigMaps (bag m)) of
                Panicked p \<Rightarrow> Panicked p
              | Returned valString (Some err) \<Rightarrow> Returned None (Some err)
              | Returned None None \<Rightarrow> Panicked NilDereference
              | Returned (Some str) None \<Rightarrow>
                  (case Atoi str of
                     Inl e \<Rightarrow> Returned None (Some (NumError str e))
                   | Inr val \<Rightarrow> Returned (Some val) None))"
          using noval Some cm
          by (simp add: Int_ToApplicableValue_def abs_Int_def abs_ValueFrom_def)
        show ?thesis
          unfolding pure
          using Int_config_mem_sound [OF g, of res m'] assms noval Some cm g
          by (simp add: Int_ToApplicableValue_mem_def)
      next
        case nocm: None
        show ?thesis
        proof (cases "KrakenResource_p (ValueFrom_cells m vf)")
          case None
          then show ?thesis
            using assms noval Some nocm
            by (auto simp: Int_ToApplicableValue_mem_def Int_ToApplicableValue_def abs_Int_def
                abs_ValueFrom_def deref_simps unchanged_below_refl)
        next
          case kr: (Some kr)
          obtain r1 m1 where
            g: "getValueFromKrakenResource_mem parseJSON T_float64_mem kr m = (r1, m1)"
            by (cases "getValueFromKrakenResource_mem parseJSON T_float64_mem kr m")
          have pure: "Int_ToApplicableValue parseJSON outOfRange (abs_Int m i) (bag m)
            = (case getValueFromKrakenResource parseJSON T_float64
                    (ValueFromKrakenResource_cells m kr) (FromKrakenResources (bag m)) of
                Panicked p \<Rightarrow> Panicked p
              | Returned valFloat (Some err) \<Rightarrow> Returned None (Some err)
              | Returned None None \<Rightarrow> Panicked NilDereference
              | Returned (Some f) None \<Rightarrow> Returned (Some (int_of_float64 outOfRange f)) None)"
            using noval Some nocm kr
            by (simp add: Int_ToApplicableValue_def abs_Int_def abs_ValueFrom_def)
          show ?thesis
            unfolding pure
            using Int_resource_mem_sound [OF g, of outOfRange res m'] assms noval Some nocm kr g
            by (simp add: Int_ToApplicableValue_mem_def)
        qed
      qed
    qed
  qed
  from both show u: "unchanged_below m m'" by simp
  from both show "deref (int_cells m') res
      = Int_ToApplicableValue parseJSON outOfRange (abs_Int m i) (bag m)" by simp
  show "abs_Int m' i = abs_Int m i"
  proof (cases "int_Value_p i")
    case None
    then show ?thesis
      using u by (simp add: abs_Int_def abs_ValueFrom_def unchanged_below_def)
  next
    case (Some a)
    then have "m' = m" using assms by (simp add: Int_ToApplicableValue_mem_def)
    then show ?thesis by simp
  qed
qed


text \<open>
  Claim C8: resolution is deterministic and free of side effects. In the memory model a
  call of \<^verbatim>\<open>ToApplicableValue\<close> leaves the bag, the cells of the reference and every cell
  allocated before the call as they were (it only allocates the cell of its result), so
  the option reads the same after the call as before; a second call with the same option
  returns the same value and the same error as the first (through a pointer to a fresh
  cell when the value was looked up); and that result is the one of the functional model
  on the option and the bag as they stand in memory.
\<close>

theorem resolution_reads_only_and_repeats:
  assumes "String_ToApplicableValue_mem parseJSON s m = (r1, m1)"
    and "String_ToApplicableValue_mem parseJSON s m1 = (r2, m2)"
    and "Int_ToApplicableValue_mem parseJSON outOfRange i m = (q1, n1)"
    and "Int_ToApplicableValue_mem parseJSON outOfRange i n1 = (q2, n2)"
  shows "unchanged_below m m1 \<and> abs_String m1 s = abs_String m s
       \<and> deref (string_cells m2) r2 = deref (string_cells m1) r1
       \<and> deref (string_cells m1) r1
           = String_ToApplicableValue parseJSON (abs_String m s) (bag m)
       \<and> unchanged_below m n1 \<and> abs_Int n1 i = abs_Int m i
       \<and> deref (int_cells n2) q2 = deref (int_cells n1) q1
       \<and> deref (int_cells n1) q1
           = Int_ToApplicableValue parseJSON outOfRange (abs_Int m i) (bag m)"
proof -
  note s1 = String_ToApplicableValue_mem_sound [OF assms(1)]
  note s2 = String_ToApplicableValue_mem_sound [OF assms(2)]
  note i1 = Int_ToApplicableValue_mem_sound [OF assms(3)]
  note i2 = Int_ToApplicableValue_mem_sound [OF assms(4)]
  have bs: "bag m1 = bag m" and bi: "bag n1 = bag m"
    using s1(1) i1(1) by (simp_all add: unchanged_below_def)
  have "deref (string_cells m2) r2 = deref (string_cells m1) r1"
    by (simp add: s2(2) s1(2) s1(3) bs)
  moreover have "deref (int_cells n2) q2 = deref (int_cells n1) q1"
    by (simp add: i2(2) i1(2) i1(3) bi)
  ultimately show ?thesis
    using s1 i1 by simp
qed

theorem resolution_reads_only_and_repeats_witness:
  "(let m = \<lparr>string_cells = (\<lambda>a. []), int_cells = (\<lambda>a. 0), float64_cells = (\<lambda>a. Finite 0),
             ValueFrom_cells = (\<lambda>a. \<lparr>ConfigMap_p = Some 1, Secret_p = None,
                                     KrakenResource_p = None\<rparr>),
             ValueFromConfigMap_cells = (\<lambda>a. \<lparr>cm_Name = ''cfg'', cm_Key = ''port''\<rparr>),
             ValueFromSecret_cells = (\<lambda>a. \<lparr>sec_Name = [], sec_Key = []\<rparr>),
             ValueFromKrakenResource_cells = (\<lambda>a. \<lparr>kr_Kind = [], kr_Name = [], kr_Path = []\<rparr>),
             bag = \<lparr>FromConfigMaps = [''cfg'' \<mapsto> [''port'' \<mapsto> ''8080'']],
                    FromKrakenResources = Map.empty\<rparr>,
             next_free = 2\<rparr>;
        p = (\<lambda>raw. Inl ''no parser'');
        s = \<lparr>str_Value_p = None, str_ValueFrom_p = Some 0\<rparr>;
        i = \<lparr>int_Value_p = None, int_ValueFrom_p = Some 0\<rparr>
    in case String_ToApplicableValue_mem p s m of (r1, m1) \<Rightarrow>
       case String_ToApplicableValue_mem p s m1 of (r2, m2) \<Rightarrow>
       case Int_ToApplicableValue_mem p (\<lambda>f. 0) i m of (q1, n1) \<Rightarrow>
       case Int_ToApplicableValue_mem p (\<lambda>f. 0) i n1 of (q2, n2) \<Rightarrow>
         deref (string_cells m1) r1 = Returned (Some ''8080'') None
       \<and> deref (string_cells m2) r2 = Returned (Some ''8080'') None
       \<and> bag m1 = bag m \<and> abs_String m1 s = abs_String m s
       \<and> deref (int_cells n1) q1 = Returned (Some 8080) None
       \<and> deref (int_cells n2) q2 = Returned (Some 8080) None
       \<and> bag n1 = bag m \<and> abs_Int n1 i = abs_Int m i)"
proof -
  let ?m = "\<lparr>string_cells = (\<lambda>a. []), int_cells = (\<lambda>a. 0), float64_cells = (\<lambda>a. Finite 0),
             ValueFrom_cells = (\<lambda>a. \<lparr>ConfigMap_p = Some 1, Secret_p = None,
                                     KrakenResource_p = None\<rparr>),
             ValueFromConfigMap_cells = (\<lambda>a. \<lparr>cm_Name = ''cfg'', cm_Key = ''port''\<rparr>),
             ValueFromSecret_cells = (\<lambda>a. \<lparr>sec_Name = [], sec_Key = []\<rparr>),
             ValueFromKrakenResource_cells = (\<lambda>a. \<lparr>kr_Kind = [], kr_Name = [], kr_Path = []\<rparr>),
             bag = \<lparr>FromConfigMaps = [''cfg'' \<mapsto> [''port'' \<mapsto> ''8080'']],
                    FromKrakenResources = Map.empty\<rparr>,
             next_free = 2\<rparr>"
  let ?p = "\<lambda>raw. (Inl ''no parser'' :: string + jdata)"
  let ?s = "\<lparr>str_Value_p = None, str_ValueFrom_p = Some 0\<rparr>"
  let ?i = "\<lparr>int_Value_p = None, int_ValueFrom_p = Some 0\<rparr>"
  obtain r1 m1 where a1: "String_ToApplicableValue_mem ?p ?s ?m = (r1, m1)"
    by (cases "String_ToApplicableValue_mem ?p ?s ?m")
  obtain r2 m2 where a2: "String_ToApplicableValue_mem ?p ?s m1 = (r2, m2)"
    by (cases "String_ToApplicableValue_mem ?p ?s m1")
  obtain q1 n1 where a3: "Int_ToApplicableValue_mem ?p (\<lambda>f. 0) ?i ?m = (q1, n1)"
    by (cases "Int_ToApplicableValue_mem ?p (\<lambda>f. 0) ?i ?m")
  obtain q2 n2 where a4: "Int_ToApplicableValue_mem ?p (\<lambda>f. 0) ?i n1 = (q2, n2)"
    by (cases "Int_ToApplicableValue_mem ?p (\<lambda>f. 0) ?i n1")
  note T = resolution_reads_only_and_repeats [OF a1 a2 a3 a4]
  have ps: "String_ToApplicableValue ?p (abs_String ?m ?s) (bag ?m)
      = Returned (Some ''8080'') None"
    by (simp add: String_ToApplicableValue_def abs_String_def abs_ValueFrom_def
        getValueFromConfigMap_def)
  have pi: "Int_ToApplicableValue ?p (\<lambda>f. 0) (abs_Int ?m ?i) (bag ?m)
      = Returned (Some 8080) None"
    by (simp add: Int_ToApplicableValue_def abs_Int_def abs_ValueFrom_def
        getValueFromConfigMap_def Atoi_def isDigit_def digitVal_def maxUint64_def)
  from T have u1: "unchanged_below ?m m1"
    and as: "abs_String m1 ?s = abs_String ?m ?s"
    and d2: "deref (string_cells m2) r2 = deref (string_cells m1) r1"
    and d1: "deref (string_cells m1) r1
           = String_ToApplicableValue ?p (abs_String ?m ?s) (bag ?m)"
    and u2: "unchanged_below ?m n1"
    and ai: "abs_Int n1 ?i = abs_Int ?m ?i"
    and e2: "deref (int_cells n2) q2 = deref (int_cells n1) q1"
    and e1: "deref (int_cells n1) q1
           = Int_ToApplicableValue ?p (\<lambda>f. 0) (abs_Int ?m ?i) (bag ?m)"
    by blast+
  from u1 u2 have b: "bag m1 = bag ?m" "bag n1 = bag ?m"
    by (simp_all add: unchanged_below_def)
  have "deref (string_cells m1) r1 = Returned (Some ''8080'') None"
    unfolding d1 by (rule ps)
  moreover have "deref (string_cells m2) r2 = Returned (Some ''8080'') None"
    unfolding d2 d1 by (rule ps)
  moreover have "deref (int_cells n1) q1 = Returned (Some 8080) None"
    unfolding e1 by (rule pi)
  moreover have "deref (int_cells n2) q2 = Returned (Some 8080) None"
    unfolding e2 e1 by (rule pi)
  ultimately show ?thesis
    unfolding Let_def a1 a3 prod.case a2 a4
    using b as ai by (intro conjI)
qed

end
